theory Spec2Isabelle
  imports Complex_Main
begin

section \<open>Python values and failures\<close>

text \<open>
  The source works on the two documents that \<^verbatim>\<open>json.load\<close> returns: nested
  dictionaries, lists, strings, integers, booleans and \<^verbatim>\<open>None\<close>. A dictionary is
  an association list in insertion order (Python keeps it); its keys are strings, and
  a well-formed dictionary repeats no key. Numbers are integers; characters are those of
  \<^typ>\<open>string\<close>.
\<close>

datatype json =
    JNull
  | JBool bool
  | JInt int
  | JStr string
  | JArr "json list"
  | JObj "(string \<times> json) list"

text \<open>
  The exceptions that the operations of the source can raise. \<^verbatim>\<open>KeyError\<close> carries
  the key that was not found, as in Python. \<open>OSError\<close> and \<open>JSONDecodeError\<close> are
  what opening and parsing a file can raise.
\<close>

datatype py_error =
    KeyError json
  | TypeError
  | AttributeError
  | IndexError
  | OSError
  | JSONDecodeError

text \<open>Sequencing of statements that may raise: the first exception ends the run.\<close>

definition bindE :: "'e + 'a \<Rightarrow> ('a \<Rightarrow> 'e + 'b) \<Rightarrow> 'e + 'b" where
  "bindE m f = (case m of Inl e \<Rightarrow> Inl e | Inr v \<Rightarrow> f v)"

text \<open>\<^verbatim>\<open>xs[i]\<close> on a list or string: a negative index counts from the end.\<close>

definition py_index :: "'a list \<Rightarrow> int \<Rightarrow> py_error + 'a" where
  "py_index xs i =
     (if 0 \<le> i \<and> i < int (length xs) then Inr (xs ! nat i)
      else if i < 0 \<and> - int (length xs) \<le> i then Inr (xs ! nat (int (length xs) + i))
      else Inl IndexError)"

text \<open>
  \<^verbatim>\<open>obj[key]\<close>. A dictionary raises \<^verbatim>\<open>KeyError\<close> on a key it does not have and
  \<^verbatim>\<open>TypeError\<close> on an unhashable key (a list or a dictionary); a list and a string
  take integer indices (a boolean is an integer in Python); nothing else can be
  subscripted.
\<close>

fun subscript :: "json \<Rightarrow> json \<Rightarrow> py_error + json" where
  "subscript (JObj kvs) (JStr k) =
     (case map_of kvs k of None \<Rightarrow> Inl (KeyError (JStr k)) | Some v \<Rightarrow> Inr v)"
| "subscript (JObj kvs) (JArr ks) = Inl TypeError"
| "subscript (JObj kvs) (JObj ks) = Inl TypeError"
| "subscript (JObj kvs) JNull = Inl (KeyError JNull)"
| "subscript (JObj kvs) (JBool b) = Inl (KeyError (JBool b))"
| "subscript (JObj kvs) (JInt i) = Inl (KeyError (JInt i))"
| "subscript (JArr xs) (JInt i) = py_index xs i"
| "subscript (JArr xs) (JBool b) = py_index xs (if b then 1 else 0)"
| "subscript (JArr xs) k = Inl TypeError"
| "subscript (JStr s) (JInt i) = bindE (py_index s i) (\<lambda>c. Inr (JStr [c]))"
| "subscript (JStr s) (JBool b) =
     bindE (py_index s (if b then 1 else 0)) (\<lambda>c. Inr (JStr [c]))"
| "subscript (JStr s) k = Inl TypeError"
| "subscript v k = Inl TypeError"

text \<open>\<^verbatim>\<open>for x in obj\<close>: the elements of a list, the keys of a dictionary, the
  characters of a string; the other values are not iterable.\<close>

fun py_iter :: "json \<Rightarrow> py_error + json list" where
  "py_iter (JArr xs) = Inr xs"
| "py_iter (JObj kvs) = Inr (map (\<lambda>kv. JStr (fst kv)) kvs)"
| "py_iter (JStr s) = Inr (map (\<lambda>c. JStr [c]) s)"
| "py_iter v = Inl TypeError"

fun is_substring :: "string \<Rightarrow> string \<Rightarrow> bool" where
  "is_substring k [] = (k = [])"
| "is_substring k (c # s) = (take (length k) (c # s) = k \<or> is_substring k s)"

text \<open>\<^verbatim>\<open>k in obj\<close> for a string \<open>k\<close>: a key of a dictionary, an element of a list,
  a substring of a string.\<close>

fun py_in :: "string \<Rightarrow> json \<Rightarrow> py_error + bool" where
  "py_in k (JObj kvs) = Inr (k \<in> set (map fst kvs))"
| "py_in k (JArr xs) = Inr (JStr k \<in> set xs)"
| "py_in k (JStr s) = Inr (is_substring k s)"
| "py_in k v = Inl TypeError"

text \<open>\<^verbatim>\<open>obj.keys()\<close>: only a dictionary has the method.\<close>

fun dict_keys :: "json \<Rightarrow> py_error + string list" where
  "dict_keys (JObj kvs) = Inr (map fst kvs)"
| "dict_keys v = Inl AttributeError"

text \<open>
  \<^verbatim>\<open>d[k] = v\<close> on a dictionary: an existing key keeps its place and takes the new
  value, a new key goes to the end. A dictionary display \<^verbatim>\<open>{**a, **b}\<close> inserts the
  items of \<open>a\<close>, then those of \<open>b\<close>, into an empty dictionary.
\<close>

fun dict_set :: "(string \<times> 'v) list \<Rightarrow> string \<Rightarrow> 'v \<Rightarrow> (string \<times> 'v) list" where
  "dict_set [] k v = [(k, v)]"
| "dict_set ((k', v') # kvs) k v =
     (if k' = k then (k, v) # kvs else (k', v') # dict_set kvs k v)"

definition dict_display :: "(string \<times> 'v) list \<Rightarrow> (string \<times> 'v) list" where
  "dict_display items = foldl (\<lambda>d kv. dict_set d (fst kv) (snd kv)) [] items"

definition dict_merge :: "(string \<times> 'v) list \<Rightarrow> (string \<times> 'v) list \<Rightarrow> (string \<times> 'v) list" where
  "dict_merge a b = dict_display (a @ b)"

text \<open>
  A replacement field \<^verbatim>\<open>{v}\<close> of an f-string: a string is inserted as it is, any
  other value through Python's built-in conversion, which is the parameter \<open>repr\<close>.
\<close>

definition py_format :: "(json \<Rightarrow> string) \<Rightarrow> json \<Rightarrow> string" where
  "py_format repr v = (case v of JStr s \<Rightarrow> s | _ \<Rightarrow> repr v)"

section \<open>The identifier resolver\<close>

text \<open>
  \<^verbatim>\<open>get_urn_from_dbtNode\<close>, lines 191 to 196. Its five parameters are annotated
  \<^verbatim>\<open>str\<close>; the callers below pass \<^const>\<open>py_format\<close> of the values they read,
  which is what the f-string does to them. \<^verbatim>\<open>.replace('"', "")\<close> deletes every
  double quote, the character \<open>0x22\<close>.
\<close>

definition get_urn_from_dbtNode :: "string \<Rightarrow> string \<Rightarrow> string \<Rightarrow> string \<Rightarrow> string \<Rightarrow> string" where
  "get_urn_from_dbtNode database schema name target_platform env =
     (let db_fqn = filter (\<lambda>c. c \<noteq> CHR 0x22) (database @ ''.'' @ schema @ ''.'' @ name)
      in ''urn:li:dataset:(urn:li:dataPlatform:'' @ target_platform @ '','' @ db_fqn
           @ '','' @ env @ '')'')"

section \<open>The classes of the source\<close>

text \<open>\<^verbatim>\<open>DBTColumn\<close>, lines 50 to 54; \<^verbatim>\<open>DBTNode\<close> follows the functions whose
  parameters bear the names of its fields.\<close>

record DBTColumn =
  name :: json
  comment :: json
  index :: json
  data_type :: json

section \<open>Upstream resolution\<close>

text \<open>
  \<^verbatim>\<open>get_upstreams\<close>, lines 207 to 236. The loop body reads
  \<^verbatim>\<open>all_nodes[upstream]\<close> anew at each use; the lookups are pure, so the model
  reads it once. The accumulator is the list \<^verbatim>\<open>upstream_urns\<close>.
\<close>

fun get_upstreams_loop ::
  "(json \<Rightarrow> string) \<Rightarrow> json list \<Rightarrow> (string \<times> json) list \<Rightarrow> bool \<Rightarrow> string \<Rightarrow> string
     \<Rightarrow> string list \<Rightarrow> py_error + string list" where
  "get_upstreams_loop repr [] all_nodes load_catalog target_platform environment upstream_urns =
     Inr upstream_urns"
| "get_upstreams_loop repr (upstream # rest) all_nodes load_catalog target_platform environment
       upstream_urns =
     bindE (subscript (JObj all_nodes) upstream) (\<lambda>entry.
     bindE (subscript entry (JStr ''database'')) (\<lambda>database.
     bindE (subscript entry (JStr ''schema'')) (\<lambda>schema.
     bindE (py_in ''identifier'' entry) (\<lambda>has_identifier.
     bindE (if has_identifier \<and> \<not> load_catalog
            then subscript entry (JStr ''identifier'')
            else subscript entry (JStr ''name'')) (\<lambda>name.
     get_upstreams_loop repr rest all_nodes load_catalog target_platform environment
       (upstream_urns @
          [get_urn_from_dbtNode (py_format repr database) (py_format repr schema)
             (py_format repr name) target_platform environment]))))))"

definition get_upstreams ::
  "(json \<Rightarrow> string) \<Rightarrow> json \<Rightarrow> (string \<times> json) list \<Rightarrow> bool \<Rightarrow> string \<Rightarrow> string
     \<Rightarrow> py_error + string list" where
  "get_upstreams repr upstreams all_nodes load_catalog target_platform environment =
     bindE (py_iter upstreams) (\<lambda>ups.
       get_upstreams_loop repr ups all_nodes load_catalog target_platform environment [])"

section \<open>Columns of a catalog entry\<close>

text \<open>\<^verbatim>\<open>get_columns\<close>, lines 78 to 92: one column per key of
  \<^verbatim>\<open>catalog_node["columns"]\<close>, in the order of iteration.\<close>

fun get_columns_loop :: "json \<Rightarrow> json list \<Rightarrow> DBTColumn list \<Rightarrow> py_error + DBTColumn list" where
  "get_columns_loop raw_columns [] columns = Inr columns"
| "get_columns_loop raw_columns (key # rest) columns =
     bindE (subscript raw_columns key) (\<lambda>raw_column.
     bindE (subscript raw_column (JStr ''comment'')) (\<lambda>comment.
     bindE (subscript raw_column (JStr ''type'')) (\<lambda>data_type.
     bindE (subscript raw_column (JStr ''index'')) (\<lambda>index.
     bindE (subscript raw_column (JStr ''name'')) (\<lambda>name.
     get_columns_loop raw_columns rest
       (columns @ [\<lparr>DBTColumn.name = name, comment = comment, index = index,
                     data_type = data_type\<rparr>]))))))"

definition get_columns :: "json \<Rightarrow> py_error + DBTColumn list" where
  "get_columns catalog_node =
     bindE (subscript catalog_node (JStr ''columns'')) (\<lambda>raw_columns.
     bindE (py_iter raw_columns) (\<lambda>keys.
       get_columns_loop raw_columns keys []))"

section \<open>The lineage builder\<close>

text \<open>
  The classes of the metadata model that the source instantiates; their constructors
  store their arguments. \<^verbatim>\<open>DatasetLineageTypeClass.TRANSFORMED\<close> is the one
  relationship type in use.
\<close>

record AuditStamp =
  time :: int
  actor :: string

datatype DatasetLineageTypeClass = TRANSFORMED

record UpstreamClass =
  dataset :: string
  auditStamp :: AuditStamp
  type :: DatasetLineageTypeClass

record UpstreamLineage =
  upstreams :: "UpstreamClass list"

text \<open>
  \<^verbatim>\<open>int(x)\<close> on a float cuts the fraction off, towards zero. The reading of the
  clock, \<^verbatim>\<open>time.time()\<close>, is a parameter of the functions that take one.
\<close>

definition int_of_float :: "real \<Rightarrow> int" where
  "int_of_float x = (if 0 \<le> x then \<lfloor>x\<rfloor> else \<lceil>x\<rceil>)"

text \<open>\<^verbatim>\<open>get_upstream_lineage\<close>, lines 239 to 252; the loop appends one entry for
  each element of its argument.\<close>

definition get_upstream_lineage :: "real \<Rightarrow> string list \<Rightarrow> UpstreamLineage" where
  "get_upstream_lineage time_time upstream_urns =
     (let actor = ''urn:li:corpuser:dbt_executor'';
          sys_time = int_of_float time_time * 1000;
          ucl = foldl (\<lambda>ucl dep.
                  ucl @ [\<lparr>dataset = dep,
                           auditStamp = \<lparr>time = sys_time, actor = actor\<rparr>,
                           type = TRANSFORMED\<rparr>]) [] upstream_urns
      in \<lparr>upstreams = ucl\<rparr>)"

section \<open>The entity extractor\<close>

text \<open>\<^verbatim>\<open>DBTNode\<close>, lines 61 to 71. A field holds whatever value the document
  has under the key it is read from.\<close>

record DBTNode =
  dbt_name :: string
  database :: json
  schema :: json
  dbt_file_path :: json
  node_type :: json
  materialization :: json
  name :: json
  columns :: "DBTColumn list"
  upstream_urns :: "string list"
  datahub_urn :: string

text \<open>
  \<^verbatim>\<open>extract_dbt_entities\<close>, lines 95 to 155. The filter
  \<^verbatim>\<open>node_type_pattern.allowed\<close> is not among the sources; it is the parameter
  \<open>allowed\<close>, which may raise. \<open>extract_entry\<close> is the body of the loop, where
  \<open>None\<close> is \<^verbatim>\<open>continue\<close>. Three of its blocks are written apart:
  \<open>entity_name\<close> is lines 115 to 118, \<open>entity_materialization\<close> lines 120 to 135
  (it gives the materialization and the upstream identifiers), \<open>entity_columns\<close>
  lines 137 to 143.
\<close>

definition entity_name :: "bool \<Rightarrow> json \<Rightarrow> py_error + json" where
  "entity_name load_catalog node =
     bindE (py_in ''identifier'' node) (\<lambda>has_identifier.
       if has_identifier \<and> load_catalog = False
       then subscript node (JStr ''identifier'')
       else subscript node (JStr ''name''))"

definition entity_materialization ::
  "(json \<Rightarrow> string) \<Rightarrow> (string \<times> json) list \<Rightarrow> (string \<times> json) list \<Rightarrow> bool \<Rightarrow> string
     \<Rightarrow> string \<Rightarrow> string \<Rightarrow> json \<Rightarrow> py_error + json \<times> string list" where
  "entity_materialization repr nodes catalog load_catalog target_platform environment key node =
     bindE (subscript node (JStr ''config'')) (\<lambda>config.
     bindE (dict_keys config) (\<lambda>keys.
     if ''materialized'' \<in> set keys
     then
       bindE (subscript config (JStr ''materialized'')) (\<lambda>materialization.
       bindE (subscript node (JStr ''depends_on'')) (\<lambda>depends_on.
       bindE (subscript depends_on (JStr ''nodes'')) (\<lambda>upstreams.
       bindE (get_upstreams repr upstreams nodes load_catalog target_platform environment)
         (\<lambda>upstream_urns.
       Inr (materialization, upstream_urns)))))
     else
       bindE (subscript (JObj catalog) (JStr key)) (\<lambda>catalog_node.
       bindE (subscript catalog_node (JStr ''metadata'')) (\<lambda>metadata.
       bindE (subscript metadata (JStr ''type'')) (\<lambda>materialization.
       Inr (materialization, []))))))"

definition entity_columns ::
  "(string \<times> json) list \<Rightarrow> bool \<Rightarrow> string \<Rightarrow> json \<Rightarrow> py_error + DBTColumn list" where
  "entity_columns catalog load_catalog key = (\<lambda>materialization.
     if materialization \<noteq> JStr ''ephemeral'' \<and> load_catalog
     then bindE (subscript (JObj catalog) (JStr key)) get_columns
     else Inr [])"

definition extract_entry ::
  "(json \<Rightarrow> py_error + bool) \<Rightarrow> (json \<Rightarrow> string) \<Rightarrow> (string \<times> json) list
     \<Rightarrow> (string \<times> json) list \<Rightarrow> bool \<Rightarrow> string \<Rightarrow> string \<Rightarrow> string \<Rightarrow> json
     \<Rightarrow> py_error + DBTNode option" where
  "extract_entry allowed repr nodes catalog load_catalog target_platform environment key node =
     bindE (subscript node (JStr ''resource_type'')) (\<lambda>resource_type.
     bindE (allowed resource_type) (\<lambda>ok.
     if \<not> ok then Inr None else
     bindE (subscript node (JStr ''database'')) (\<lambda>database.
     bindE (subscript node (JStr ''schema'')) (\<lambda>schema.
     bindE (subscript node (JStr ''original_file_path'')) (\<lambda>dbt_file_path.
     bindE (subscript node (JStr ''resource_type'')) (\<lambda>node_type.
     bindE (entity_name load_catalog node) (\<lambda>name.
     bindE (entity_materialization repr nodes catalog load_catalog target_platform environment
              key node) (\<lambda>mu.
     bindE (entity_columns catalog load_catalog key (fst mu)) (\<lambda>columns.
     Inr (Some \<lparr>dbt_name = key, database = database, schema = schema,
                 dbt_file_path = dbt_file_path, node_type = node_type,
                 materialization = fst mu, name = name, columns = columns,
                 upstream_urns = snd mu,
                 datahub_urn =
                   get_urn_from_dbtNode (py_format repr database) (py_format repr schema)
                     (py_format repr name) target_platform environment\<rparr>))))))))))"

fun extract_loop ::
  "(json \<Rightarrow> py_error + bool) \<Rightarrow> (json \<Rightarrow> string) \<Rightarrow> (string \<times> json) list
     \<Rightarrow> (string \<times> json) list \<Rightarrow> bool \<Rightarrow> string \<Rightarrow> string \<Rightarrow> (string \<times> json) list
     \<Rightarrow> DBTNode list \<Rightarrow> py_error + DBTNode list" where
  "extract_loop allowed repr nodes catalog load_catalog target_platform environment []
       dbt_entities = Inr dbt_entities"
| "extract_loop allowed repr nodes catalog load_catalog target_platform environment
       (item # rest) dbt_entities =
     bindE (extract_entry allowed repr nodes catalog load_catalog target_platform environment
              (fst item) (snd item)) (\<lambda>r.
       extract_loop allowed repr nodes catalog load_catalog target_platform environment rest
         (case r of None \<Rightarrow> dbt_entities | Some dbtNode \<Rightarrow> dbt_entities @ [dbtNode]))"

definition extract_dbt_entities ::
  "(string \<times> json) list \<Rightarrow> (string \<times> json) list \<Rightarrow> bool \<Rightarrow> string \<Rightarrow> string
     \<Rightarrow> (json \<Rightarrow> py_error + bool) \<Rightarrow> (json \<Rightarrow> string) \<Rightarrow> py_error + DBTNode list" where
  "extract_dbt_entities nodes catalog load_catalog target_platform environment allowed repr =
     extract_loop allowed repr nodes catalog load_catalog target_platform environment nodes []"

section \<open>Loading the two documents\<close>

text \<open>
  What the source takes from outside this file: the file system and the JSON parser,
  Python's conversion of a value to text, the two vendor tables and the resolver of
  \<^verbatim>\<open>dbt_types\<close>, what the call of one of their values with no argument raises, if
  anything (\<open>call_raises\<close>), and the clock (\<open>time_time n\<close> is its \<open>n\<close>-th reading
  in a run). A table may hold \<^verbatim>\<open>None\<close> under a key, and the resolver may answer
  \<^verbatim>\<open>None\<close>.
\<close>

text \<open>The values that stand for canonical types: the six classes that the source
  names, and any other value that a vendor table or the resolver may give, written by
  the name of its class.\<close>

datatype schema_type =
    BooleanTypeClass
  | DateTypeClass
  | TimeTypeClass
  | NumberTypeClass
  | StringTypeClass
  | NullTypeClass
  | OtherTypeClass string

record externals =
  open_file :: "string \<Rightarrow> py_error + string"
  json_load :: "string \<Rightarrow> py_error + json"
  py_repr :: "json \<Rightarrow> string"
  POSTGRES_TYPES_MAP :: "(string \<times> schema_type option) list"
  SNOWFLAKE_TYPES_MAP :: "(string \<times> schema_type option) list"
  resolve_postgres_modified_type :: "json \<Rightarrow> py_error + schema_type option"
  call_raises :: "schema_type \<Rightarrow> py_error option"
  time_time :: "nat \<Rightarrow> real"

text \<open>An operand of \<^verbatim>\<open>**\<close> in a dictionary display has to be a mapping.\<close>

fun as_mapping :: "json \<Rightarrow> py_error + (string \<times> json) list" where
  "as_mapping (JObj kvs) = Inr kvs"
| "as_mapping v = Inl TypeError"

text \<open>\<^verbatim>\<open>loadManifestAndCatalog\<close>, lines 158 to 188: both files are opened, then
  both are parsed.\<close>

definition loadManifestAndCatalog ::
  "externals \<Rightarrow> string \<Rightarrow> string \<Rightarrow> bool \<Rightarrow> string \<Rightarrow> string \<Rightarrow> (json \<Rightarrow> py_error + bool)
     \<Rightarrow> py_error + DBTNode list" where
  "loadManifestAndCatalog ext manifest_path catalog_path load_catalog target_platform environment
       node_type_pattern =
     bindE (open_file ext manifest_path) (\<lambda>manifest.
     bindE (open_file ext catalog_path) (\<lambda>catalog.
     bindE (json_load ext manifest) (\<lambda>dbt_manifest_json.
     bindE (json_load ext catalog) (\<lambda>dbt_catalog_json.
     bindE (subscript dbt_manifest_json (JStr ''nodes'')) (\<lambda>manifest_nodes.
     bindE (subscript dbt_manifest_json (JStr ''sources'')) (\<lambda>manifest_sources.
     bindE (as_mapping manifest_nodes) (\<lambda>nodes_items.
     bindE (as_mapping manifest_sources) (\<lambda>sources_items.
     let all_manifest_entities = dict_merge nodes_items sources_items in
     bindE (subscript dbt_catalog_json (JStr ''nodes'')) (\<lambda>catalog_nodes.
     bindE (subscript dbt_catalog_json (JStr ''sources'')) (\<lambda>catalog_sources.
     bindE (as_mapping catalog_nodes) (\<lambda>catalog_nodes_items.
     bindE (as_mapping catalog_sources) (\<lambda>catalog_sources_items.
     let all_catalog_entities = dict_merge catalog_nodes_items catalog_sources_items in
     extract_dbt_entities all_manifest_entities all_catalog_entities load_catalog
       target_platform environment node_type_pattern (py_repr ext)))))))))))))"

section \<open>The type mapper\<close>

text \<open>
  Modelled from the spec: \<^verbatim>\<open>SourceReport\<close> is not among the sources. The spec
  calls it a run report accumulating per-record acknowledgments and non-fatal
  type-mapping warnings; the model keeps what the source reports to it, in the order of
  the calls: each warning with its key and reason, each work unit by its id.
\<close>

record SourceReport =
  warnings :: "(string \<times> string) list"
  workunit_ids :: "string list"

definition report_warning :: "SourceReport \<Rightarrow> string \<Rightarrow> string \<Rightarrow> SourceReport" where
  "report_warning report key reason = report\<lparr>warnings := warnings report @ [(key, reason)]\<rparr>"

text \<open>The call \<^verbatim>\<open>TypeClass()\<close> of line 292: the object that the call builds, or
  what the call raises.\<close>

datatype type_object = Instance schema_type

definition call_type :: "externals \<Rightarrow> schema_type \<Rightarrow> py_error + type_object" where
  "call_type ext c = (case call_raises ext c of None \<Rightarrow> Inr (Instance c) | Some e \<Rightarrow> Inl e)"

record SchemaFieldDataType =
  type :: type_object

text \<open>\<^verbatim>\<open>_field_type_mapping\<close>, lines 256 to 268: in a dictionary display a later
  item overrides an earlier one with the same key.\<close>

definition field_type_mapping :: "externals \<Rightarrow> (string \<times> schema_type option) list" where
  "field_type_mapping ext =
     dict_display
       ([(''boolean'', Some BooleanTypeClass),
         (''date'', Some DateTypeClass),
         (''time'', Some TimeTypeClass),
         (''numeric'', Some NumberTypeClass),
         (''text'', Some StringTypeClass),
         (''timestamp with time zone'', Some DateTypeClass),
         (''timestamp without time zone'', Some DateTypeClass),
         (''integer'', Some NumberTypeClass),
         (''float8'', Some NumberTypeClass)]
        @ POSTGRES_TYPES_MAP ext @ SNOWFLAKE_TYPES_MAP ext)"

text \<open>\<^verbatim>\<open>d.get(key)\<close>: the value under the key, which may be \<^verbatim>\<open>None\<close>;
  \<^verbatim>\<open>None\<close> for a key that is not there, \<^verbatim>\<open>TypeError\<close> for an unhashable one.\<close>

fun dict_get :: "(string \<times> 'v option) list \<Rightarrow> json \<Rightarrow> py_error + 'v option" where
  "dict_get d (JStr k) = Inr (case map_of d k of None \<Rightarrow> None | Some v \<Rightarrow> v)"
| "dict_get d (JArr ks) = Inl TypeError"
| "dict_get d (JObj ks) = Inl TypeError"
| "dict_get d k = Inr None"

text \<open>
  \<^verbatim>\<open>get_column_type\<close>, lines 271 to 292. The local \<^verbatim>\<open>TypeClass\<close> is a value
  of the tables or of the resolver, or \<^verbatim>\<open>None\<close>. The warning of the fallback is
  reported before \<^verbatim>\<open>TypeClass\<close> is called, so a call that raises leaves it in the
  report. The result pairs what the function returns or raises with the report as it
  leaves it.
\<close>

definition get_column_type ::
  "externals \<Rightarrow> SourceReport \<Rightarrow> string \<Rightarrow> json \<Rightarrow> (py_error + SchemaFieldDataType) \<times> SourceReport" where
  "get_column_type ext report dataset_name column_type =
     (case dict_get (field_type_mapping ext) column_type of
        Inl e \<Rightarrow> (Inl e, report)
      | Inr TypeClass \<Rightarrow>
          (case (if TypeClass = None then resolve_postgres_modified_type ext column_type
                 else Inr TypeClass) of
             Inl e \<Rightarrow> (Inl e, report)
           | Inr TypeClass \<Rightarrow>
               (let report' =
                      (if TypeClass = None
                       then report_warning report dataset_name
                              (''unable to map type '' @ py_format (py_repr ext) column_type
                                 @ '' to metadata schema'')
                       else report);
                    TypeClass = (case TypeClass of None \<Rightarrow> NullTypeClass | Some c \<Rightarrow> c)
                in (case call_type ext TypeClass of
                      Inl e \<Rightarrow> (Inl e, report')
                    | Inr t \<Rightarrow> (Inr \<lparr>type = t\<rparr>, report')))))"

section \<open>The schema builder\<close>

record SchemaField =
  fieldPath :: json
  nativeDataType :: json
  type :: SchemaFieldDataType
  description :: json
  nullable :: bool
  recursive :: bool

record MySqlDDL =
  tableSchema :: string

text \<open>The field \<^verbatim>\<open>fields\<close> of \<^verbatim>\<open>SchemaMetadata\<close> is \<open>schema_fields\<close> here, the
  field \<^verbatim>\<open>id\<close> of \<^verbatim>\<open>MetadataWorkUnit\<close> is \<open>wu_id\<close>.\<close>

record SchemaMetadata =
  schemaName :: string
  platform :: string
  version :: int
  hash :: string
  platformSchema :: MySqlDDL
  created :: AuditStamp
  lastModified :: AuditStamp
  schema_fields :: "SchemaField list"

text \<open>\<^verbatim>\<open>get_schema_metadata\<close>, lines 295 to 321. The loop over
  \<^verbatim>\<open>node.columns\<close> stops at the first call of the type mapper that raises.\<close>

fun get_schema_metadata_loop ::
  "externals \<Rightarrow> string \<Rightarrow> DBTColumn list \<Rightarrow> SchemaField list \<Rightarrow> SourceReport
     \<Rightarrow> (py_error + SchemaField list) \<times> SourceReport" where
  "get_schema_metadata_loop ext dataset_name [] canonical_schema report =
     (Inr canonical_schema, report)"
| "get_schema_metadata_loop ext dataset_name (column # rest) canonical_schema report =
     (case get_column_type ext report dataset_name (data_type column) of
        (Inl e, report') \<Rightarrow> (Inl e, report')
      | (Inr t, report') \<Rightarrow>
          get_schema_metadata_loop ext dataset_name rest
            (canonical_schema @
               [\<lparr>fieldPath = DBTColumn.name column, nativeDataType = data_type column,
                  type = t, description = comment column, nullable = False,
                  recursive = False\<rparr>])
            report')"

definition get_schema_metadata ::
  "externals \<Rightarrow> real \<Rightarrow> SourceReport \<Rightarrow> DBTNode \<Rightarrow> string
     \<Rightarrow> (py_error + SchemaMetadata) \<times> SourceReport" where
  "get_schema_metadata ext now report node = (\<lambda>platform.
     (case get_schema_metadata_loop ext (dbt_name node) (columns node) [] report of
        (Inl e, report') \<Rightarrow> (Inl e, report')
      | (Inr canonical_schema, report') \<Rightarrow>
          (let actor = ''urn:li:corpuser:dbt_executor'';
               sys_time = int_of_float now * 1000
           in (Inr \<lparr>schemaName = dbt_name node,
                     platform = ''urn:li:dataPlatform:'' @ platform,
                     version = 0,
                     hash = [],
                     platformSchema = \<lparr>tableSchema = []\<rparr>,
                     created = \<lparr>time = sys_time, actor = actor\<rparr>,
                     lastModified = \<lparr>time = sys_time, actor = actor\<rparr>,
                     schema_fields = canonical_schema\<rparr>,
               report'))))"

section \<open>The source driver\<close>

record DatasetPropertiesClass =
  description :: string
  customProperties :: "(string \<times> json) list"
  tags :: "string list"

datatype aspect =
    DatasetPropertiesAspect DatasetPropertiesClass
  | UpstreamLineageAspect UpstreamLineage
  | SchemaMetadataAspect SchemaMetadata

record DatasetSnapshot =
  urn :: string
  aspects :: "aspect list"

record MetadataChangeEvent =
  proposedSnapshot :: DatasetSnapshot

record MetadataWorkUnit =
  wu_id :: string
  mce :: MetadataChangeEvent

definition report_workunit :: "SourceReport \<Rightarrow> MetadataWorkUnit \<Rightarrow> SourceReport" where
  "report_workunit report wu = report\<lparr>workunit_ids := workunit_ids report @ [wu_id wu]\<rparr>"

text \<open>\<^verbatim>\<open>get_custom_properties\<close>, lines 199 to 204.\<close>

definition get_custom_properties :: "DBTNode \<Rightarrow> (string \<times> json) list" where
  "get_custom_properties node =
     [(''dbt_node_type'', node_type node),
      (''materialization'', materialization node),
      (''dbt_file_path'', dbt_file_path node)]"

text \<open>\<^verbatim>\<open>DBTConfig\<close>, lines 41 to 47; the pattern is its method
  \<^verbatim>\<open>allowed\<close>. \<^verbatim>\<open>DBTSource\<close>, lines 324 to 336.\<close>

record DBTConfig =
  manifest_path :: string
  catalog_path :: string
  env :: string
  target_platform :: string
  load_schemas :: bool
  node_type_pattern :: "json \<Rightarrow> py_error + bool"

record DBTSource =
  config :: DBTConfig
  platform :: string
  report :: SourceReport

text \<open>
  \<^verbatim>\<open>get_workunits\<close>, lines 338 to 376, is a generator. A run of it is the list of
  the work units it yields, the exception that ends it (if one does), and the report
  as the run leaves it. \<open>emit_node\<close> is the body of its loop up to the \<^verbatim>\<open>yield\<close>:
  the value that \<^verbatim>\<open>get_upstream_lineage\<close> returns is an object, which the test
  \<^verbatim>\<open>is not None\<close> then meets as \<open>Some\<close>. The number \<open>n\<close> counts the readings of
  the clock.
\<close>

record run =
  yielded :: "MetadataWorkUnit list"
  raised :: "py_error option"
  final_report :: SourceReport

definition emit_node ::
  "externals \<Rightarrow> DBTSource \<Rightarrow> nat \<Rightarrow> SourceReport \<Rightarrow> DBTNode
     \<Rightarrow> (py_error + MetadataWorkUnit) \<times> SourceReport" where
  "emit_node ext self n rep node =
     (let custom_properties = get_custom_properties node;
          dbt_properties = \<lparr>description = dbt_name node,
                            customProperties = custom_properties, tags = []\<rparr>;
          aspects1 = [] @ [DatasetPropertiesAspect dbt_properties];
          upstreams = Some (get_upstream_lineage (time_time ext n) (upstream_urns node));
          aspects2 = (case upstreams of None \<Rightarrow> aspects1
                      | Some u \<Rightarrow> aspects1 @ [UpstreamLineageAspect u]);
          built =
            (if load_schemas (config self)
             then (case get_schema_metadata ext (time_time ext (Suc n)) rep node
                          (DBTSource.platform self) of
                     (Inl e, rep') \<Rightarrow> (Inl e, rep')
                   | (Inr schema_metadata, rep') \<Rightarrow>
                       (Inr (aspects2 @ [SchemaMetadataAspect schema_metadata]), rep'))
             else (Inr aspects2, rep))
      in (case built of
            (Inl e, rep') \<Rightarrow> (Inl e, rep')
          | (Inr aspects3, rep') \<Rightarrow>
              (let dataset_snapshot = \<lparr>urn = datahub_urn node, aspects = aspects3\<rparr>;
                   wu = \<lparr>wu_id = urn dataset_snapshot,
                         mce = \<lparr>proposedSnapshot = dataset_snapshot\<rparr>\<rparr>
               in (Inr wu, report_workunit rep' wu))))"

fun emit_loop :: "externals \<Rightarrow> DBTSource \<Rightarrow> nat \<Rightarrow> SourceReport \<Rightarrow> DBTNode list \<Rightarrow> run" where
  "emit_loop ext self n rep [] = \<lparr>yielded = [], raised = None, final_report = rep\<rparr>"
| "emit_loop ext self n rep (node # rest) =
     (case emit_node ext self n rep node of
        (Inl e, rep') \<Rightarrow> \<lparr>yielded = [], raised = Some e, final_report = rep'\<rparr>
      | (Inr wu, rep') \<Rightarrow>
          (let r = emit_loop ext self (if load_schemas (config self) then n + 2 else n + 1)
                     rep' rest
           in r\<lparr>yielded := wu # yielded r\<rparr>))"

definition get_workunits :: "externals \<Rightarrow> DBTSource \<Rightarrow> run" where
  "get_workunits ext self =
     (case loadManifestAndCatalog ext
             (manifest_path (config self))
             (catalog_path (config self))
             (load_schemas (config self))
             (target_platform (config self))
             (env (config self))
             (node_type_pattern (config self)) of
        Inl e \<Rightarrow> \<lparr>yielded = [], raised = Some e, final_report = report self\<rparr>
      | Inr nodes \<Rightarrow> emit_loop ext self 0 (report self) nodes)"

section \<open>The name selection of the spec\<close>

text \<open>
  The spec words the choice of the logical name once: the declared identifier field if
  it is present and schema loading is off, the declared name field otherwise. This is
  that rule, as the key under which the logical name is read; the source writes the
  test out twice, in \<^verbatim>\<open>extract_dbt_entities\<close> and in \<^verbatim>\<open>get_upstreams\<close>.
\<close>

definition spec_logical_name_key :: "bool \<Rightarrow> (string \<times> json) list \<Rightarrow> string" where
  "spec_logical_name_key includeSchemas entry =
     (if ''identifier'' \<in> set (map fst entry) \<and> \<not> includeSchemas then ''identifier''
      else ''name'')"

section \<open>Scenario documents\<close>

text \<open>
  The documents of scenarios A and B of the spec: a source table \<open>raw_events\<close> with two
  columns, which the catalog lists with the second position first, and a model
  \<open>events\<close> that depends on it.
\<close>

definition raw_events :: json where
  "raw_events = JObj
     [(''resource_type'', JStr ''source''), (''database'', JStr ''db''),
      (''schema'', JStr ''public''), (''original_file_path'', JStr ''models/sources.yml''),
      (''name'', JStr ''raw_events''), (''identifier'', JStr ''raw_events_v1''),
      (''config'', JObj [(''enabled'', JBool True)])]"

definition events_model :: json where
  "events_model = JObj
     [(''resource_type'', JStr ''model''), (''database'', JStr ''db''),
      (''schema'', JStr ''public''), (''original_file_path'', JStr ''models/events.sql''),
      (''name'', JStr ''events''),
      (''config'', JObj [(''materialized'', JStr ''table'')]),
      (''depends_on'', JObj [(''nodes'', JArr [JStr ''source.raw_events''])])]"

definition raw_events_catalog :: json where
  "raw_events_catalog = JObj
     [(''metadata'', JObj [(''type'', JStr ''BASE TABLE'')]),
      (''columns'', JObj
         [(''payload'', JObj [(''type'', JStr ''varchar(255)''), (''index'', JInt 2),
                              (''name'', JStr ''payload''), (''comment'', JStr '''')]),
          (''id'', JObj [(''type'', JStr ''integer''), (''index'', JInt 1),
                         (''name'', JStr ''id''), (''comment'', JStr ''key'')])])]"

definition events_catalog :: json where
  "events_catalog = JObj
     [(''metadata'', JObj [(''type'', JStr ''BASE TABLE'')]),
      (''columns'', JObj
         [(''kind'', JObj [(''type'', JStr ''totally_unknown_type''), (''index'', JInt 1),
                           (''name'', JStr ''kind''), (''comment'', JStr '''')])])]"

definition scenario_nodes :: "(string \<times> json) list" where
  "scenario_nodes = [(''model.events'', events_model), (''source.raw_events'', raw_events)]"

definition scenario_catalog_nodes :: "(string \<times> json) list" where
  "scenario_catalog_nodes =
     [(''model.events'', events_catalog), (''source.raw_events'', raw_events_catalog)]"

definition scenario_manifest :: json where
  "scenario_manifest = JObj [(''nodes'', JObj [(''model.events'', events_model)]),
                             (''sources'', JObj [(''source.raw_events'', raw_events)])]"

definition scenario_catalog :: json where
  "scenario_catalog = JObj [(''nodes'', JObj [(''model.events'', events_catalog)]),
                            (''sources'', JObj [(''source.raw_events'', raw_events_catalog)])]"

text \<open>Entries with a dependency that no entry of the manifest bears: a test, a source
  and a model.\<close>

definition dangling_test :: json where
  "dangling_test = JObj
     [(''resource_type'', JStr ''test''), (''database'', JStr ''db''),
      (''schema'', JStr ''public''), (''original_file_path'', JStr ''tests/t.sql''),
      (''name'', JStr ''t''),
      (''config'', JObj [(''materialized'', JStr ''test'')]),
      (''depends_on'', JObj [(''nodes'', JArr [JStr ''model.ghost''])])]"

definition dangling_source :: json where
  "dangling_source = JObj
     [(''resource_type'', JStr ''source''), (''database'', JStr ''db''),
      (''schema'', JStr ''public''), (''original_file_path'', JStr ''models/sources.yml''),
      (''name'', JStr ''raw_events''),
      (''config'', JObj [(''enabled'', JBool True)]),
      (''depends_on'', JObj [(''nodes'', JArr [JStr ''model.ghost''])])]"

definition dangling_model :: json where
  "dangling_model = JObj
     [(''resource_type'', JStr ''model''), (''database'', JStr ''db''),
      (''schema'', JStr ''public''), (''original_file_path'', JStr ''models/events.sql''),
      (''name'', JStr ''events''),
      (''config'', JObj [(''materialized'', JStr ''table'')]),
      (''depends_on'', JObj [(''nodes'', JArr [JStr ''source.raw_events'', JStr ''model.ghost''])])]"

text \<open>
  Modelled from the spec: \<^verbatim>\<open>AllowDenyPattern\<close> is not among the sources. The spec
  calls it an allow/deny pattern over the raw resource-type string, with allow-all as
  the default of the configuration. \<open>allow_all\<close> is that default, \<open>deny_tests\<close> a
  pattern that denies the resource type \<open>test\<close>; a pattern is matched against strings.
\<close>

fun allow_all :: "json \<Rightarrow> py_error + bool" where
  "allow_all (JStr s) = Inr True"
| "allow_all v = Inl TypeError"

fun deny_tests :: "json \<Rightarrow> py_error + bool" where
  "deny_tests (JStr s) = Inr (s \<noteq> ''test'')"
| "deny_tests v = Inl TypeError"

text \<open>
  The surroundings of the scenario: the two files; vendor tables with a string type
  and a key that holds \<^verbatim>\<open>None\<close>; a resolver that knows \<open>character varying(255)\<close>
  and answers an array type for \<open>xid8[]\<close>; an array type whose call with no argument
  raises \<^verbatim>\<open>TypeError\<close>, while every other value builds its object; and a clock that
  advances a second at each reading. Every field that the scenario formats is a string,
  so the conversion of other values is not exercised.
\<close>

definition scenario_ext :: externals where
  "scenario_ext = \<lparr>
     open_file = (\<lambda>p. if p = ''manifest.json'' then Inr ''M''
                       else if p = ''catalog.json'' then Inr ''C'' else Inl OSError),
     json_load = (\<lambda>s. if s = ''M'' then Inr scenario_manifest
                       else if s = ''C'' then Inr scenario_catalog else Inl JSONDecodeError),
     py_repr = (\<lambda>v. ''None''),
     POSTGRES_TYPES_MAP = [(''character varying'', Some StringTypeClass), (''xid8'', None)],
     SNOWFLAKE_TYPES_MAP = [(''text'', Some StringTypeClass)],
     resolve_postgres_modified_type =
       (\<lambda>v. if v = JStr ''character varying(255)'' then Inr (Some StringTypeClass)
            else if v = JStr ''xid8[]'' then Inr (Some (OtherTypeClass ''ArrayTypeClass''))
            else Inr None),
     call_raises = (\<lambda>c. if c = OtherTypeClass ''ArrayTypeClass'' then Some TypeError else None),
     time_time = (\<lambda>n. 1700000000.75 + real n)\<rparr>"

definition scenario_source :: "bool \<Rightarrow> DBTSource" where
  "scenario_source b =
     \<lparr>config = \<lparr>manifest_path = ''manifest.json'', catalog_path = ''catalog.json'',
                 env = ''PROD'', target_platform = ''postgres'', load_schemas = b,
                 node_type_pattern = allow_all\<rparr>,
      platform = ''dbt'',
      report = \<lparr>warnings = [], workunit_ids = []\<rparr>\<rparr>"

text \<open>What the extractor makes of the scenario when schema loading is on.\<close>

definition events_node :: DBTNode where
  "events_node =
     \<lparr>dbt_name = ''model.events'', database = JStr ''db'', schema = JStr ''public'',
      dbt_file_path = JStr ''models/events.sql'', node_type = JStr ''model'',
      materialization = JStr ''table'', name = JStr ''events'',
      columns = [\<lparr>DBTColumn.name = JStr ''kind'', comment = JStr '''', index = JInt 1,
                   data_type = JStr ''totally_unknown_type''\<rparr>],
      upstream_urns = [''urn:li:dataset:(urn:li:dataPlatform:postgres,db.public.raw_events,PROD)''],
      datahub_urn = ''urn:li:dataset:(urn:li:dataPlatform:postgres,db.public.events,PROD)''\<rparr>"

definition raw_events_node :: DBTNode where
  "raw_events_node =
     \<lparr>dbt_name = ''source.raw_events'', database = JStr ''db'', schema = JStr ''public'',
      dbt_file_path = JStr ''models/sources.yml'', node_type = JStr ''source'',
      materialization = JStr ''BASE TABLE'', name = JStr ''raw_events'',
      columns = [\<lparr>DBTColumn.name = JStr ''payload'', comment = JStr '''', index = JInt 2,
                   data_type = JStr ''varchar(255)''\<rparr>,
                 \<lparr>DBTColumn.name = JStr ''id'', comment = JStr ''key'', index = JInt 1,
                   data_type = JStr ''integer''\<rparr>],
      upstream_urns = [],
      datahub_urn = ''urn:li:dataset:(urn:li:dataPlatform:postgres,db.public.raw_events,PROD)''\<rparr>"

text \<open>A manifest whose model depends on the source and on \<open>model.ghost\<close>, which no
  entry bears; its merged entries; and the surroundings that load it.\<close>

definition dangling_nodes :: "(string \<times> json) list" where
  "dangling_nodes = [(''model.events'', dangling_model), (''source.raw_events'', raw_events)]"

definition dangling_manifest :: json where
  "dangling_manifest = JObj [(''nodes'', JObj [(''model.events'', dangling_model)]),
                             (''sources'', JObj [(''source.raw_events'', raw_events)])]"

definition dangling_ext :: externals where
  "dangling_ext = scenario_ext
     \<lparr>json_load := (\<lambda>s. if s = ''M'' then Inr dangling_manifest
                         else if s = ''C'' then Inr scenario_catalog
                         else Inl JSONDecodeError)\<rparr>"

text \<open>A manifest whose two sections bear the same key, and the surroundings that load
  it.\<close>

definition overlap_manifest :: json where
  "overlap_manifest = JObj [(''nodes'', JObj [(''source.raw_events'', events_model)]),
                            (''sources'', JObj [(''source.raw_events'', raw_events)])]"

definition overlap_ext :: externals where
  "overlap_ext = scenario_ext
     \<lparr>json_load := (\<lambda>s. if s = ''M'' then Inr overlap_manifest
                         else if s = ''C'' then Inr scenario_catalog
                         else Inl JSONDecodeError)\<rparr>"

section \<open>Basic facts\<close>

lemma bindE_Inl [simp]: "bindE (Inl e) f = Inl e"
  by (simp add: bindE_def)

lemma bindE_Inr [simp]: "bindE (Inr v) f = f v"
  by (simp add: bindE_def)

lemma bindE_eq_Inr: "bindE m f = Inr y \<longleftrightarrow> (\<exists>v. m = Inr v \<and> f v = Inr y)"
  by (cases m) simp_all

subsection \<open>Extraction\<close>

lemma subscript_str_Inr:
  "subscript v (JStr k) = Inr x \<longleftrightarrow> (\<exists>kvs. v = JObj kvs \<and> map_of kvs k = Some x)"
  by (cases v) (auto split: option.splits)

lemma dict_keys_Inr: "dict_keys v = Inr ks \<longleftrightarrow> (\<exists>kvs. v = JObj kvs \<and> ks = map fst kvs)"
  by (cases v) auto

lemma bindE_InrE:
  assumes "bindE m f = Inr y"
  obtains v where "m = Inr v" and "f v = Inr y"
  using assms by (cases m) simp_all

lemma extract_entry_Some:
  assumes "extract_entry al rp nodes cat lc tp ev key node = Inr (Some d)"
  shows "\<exists>rt db sch fp nm mu cols.
      subscript node (JStr ''resource_type'') = Inr rt \<and> al rt = Inr True \<and>
      subscript node (JStr ''database'') = Inr db \<and>
      subscript node (JStr ''schema'') = Inr sch \<and>
      subscript node (JStr ''original_file_path'') = Inr fp \<and>
      entity_name lc node = Inr nm \<and>
      entity_materialization rp nodes cat lc tp ev key node = Inr mu \<and>
      entity_columns cat lc key (fst mu) = Inr cols \<and>
      d = \<lparr>dbt_name = key, database = db, schema = sch, dbt_file_path = fp, node_type = rt,
            materialization = fst mu, name = nm, columns = cols, upstream_urns = snd mu,
            datahub_urn = get_urn_from_dbtNode (py_format rp db) (py_format rp sch)
                            (py_format rp nm) tp ev\<rparr>"
  using assms unfolding extract_entry_def
  apply (elim bindE_InrE)
  apply (simp split: if_splits)
  apply (elim bindE_InrE)
  apply auto
  done

lemma entity_name_Inr:
  "entity_name lc node = Inr nm \<longleftrightarrow>
     (\<exists>kvs. node = JObj kvs \<and>
        map_of kvs (if ''identifier'' \<in> set (map fst kvs) \<and> \<not> lc then ''identifier'' else ''name'')
          = Some nm)"
  by (cases node) (auto simp add: entity_name_def split: option.splits)

lemma entity_materialization_model:
  assumes "subscript node (JStr ''config'') = Inr (JObj cfg)"
    and "''materialized'' \<in> set (map fst cfg)"
    and "entity_materialization rp nodes cat lc tp ev key node = Inr mu"
  shows "map_of cfg ''materialized'' = Some (fst mu) \<and>
     (\<exists>dep ups. subscript node (JStr ''depends_on'') = Inr dep \<and>
        subscript dep (JStr ''nodes'') = Inr ups \<and>
        get_upstreams rp ups nodes lc tp ev = Inr (snd mu))"
  using assms unfolding entity_materialization_def
  by (auto simp add: bindE_eq_Inr split: option.splits)

lemma entity_materialization_source:
  assumes "subscript node (JStr ''config'') = Inr (JObj cfg)"
    and "''materialized'' \<notin> set (map fst cfg)"
    and "entity_materialization rp nodes cat lc tp ev key node = Inr mu"
  shows "(\<exists>c md. map_of cat key = Some c \<and> subscript c (JStr ''metadata'') = Inr md \<and>
        subscript md (JStr ''type'') = Inr (fst mu)) \<and> snd mu = []"
  using assms unfolding entity_materialization_def
  by (auto simp add: bindE_eq_Inr split: option.splits)

lemma entity_columns_Inr:
  "entity_columns cat lc key m = Inr cols \<longleftrightarrow>
     (if m \<noteq> JStr ''ephemeral'' \<and> lc
      then \<exists>c. map_of cat key = Some c \<and> get_columns c = Inr cols
      else cols = [])"
  by (auto simp add: entity_columns_def bindE_eq_Inr split: option.splits)

lemma extract_loop_acc:
  "extract_loop al rp nodes cat lc tp ev items acc = Inr ds \<Longrightarrow> set acc \<subseteq> set ds"
proof (induction items arbitrary: acc)
  case Nil
  then show ?case by simp
next
  case (Cons item rest)
  from Cons.prems obtain r where
    r: "extract_entry al rp nodes cat lc tp ev (fst item) (snd item) = Inr r"
    and rest: "extract_loop al rp nodes cat lc tp ev rest
                 (case r of None \<Rightarrow> acc | Some dbtNode \<Rightarrow> acc @ [dbtNode]) = Inr ds"
    by (auto simp add: bindE_eq_Inr)
  from Cons.IH [OF rest] show ?case by (cases r) auto
qed

lemma extract_loop_item:
  "extract_loop al rp nodes cat lc tp ev items acc = Inr ds \<Longrightarrow> item \<in> set items \<Longrightarrow>
     \<exists>r. extract_entry al rp nodes cat lc tp ev (fst item) (snd item) = Inr r \<and>
         (case r of None \<Rightarrow> True | Some d \<Rightarrow> d \<in> set ds)"
proof (induction items arbitrary: acc)
  case Nil
  then show ?case by simp
next
  case (Cons x rest)
  from Cons.prems(1) obtain r where
    r: "extract_entry al rp nodes cat lc tp ev (fst x) (snd x) = Inr r"
    and rest: "extract_loop al rp nodes cat lc tp ev rest
                 (case r of None \<Rightarrow> acc | Some dbtNode \<Rightarrow> acc @ [dbtNode]) = Inr ds"
    by (auto simp add: bindE_eq_Inr)
  show ?case
  proof (cases "item = x")
    case True
    from extract_loop_acc [OF rest] r True show ?thesis
      by (cases r) auto
  next
    case False
    with Cons.prems(2) have "item \<in> set rest" by simp
    from Cons.IH [OF rest this] show ?thesis .
  qed
qed

lemma extract_loop_node:
  "extract_loop al rp nodes cat lc tp ev items acc = Inr ds \<Longrightarrow> d \<in> set ds \<Longrightarrow>
     d \<in> set acc \<or>
     (\<exists>item \<in> set items. extract_entry al rp nodes cat lc tp ev (fst item) (snd item) = Inr (Some d))"
proof (induction items arbitrary: acc)
  case Nil
  then show ?case by simp
next
  case (Cons x rest)
  from Cons.prems(1) obtain r where
    r: "extract_entry al rp nodes cat lc tp ev (fst x) (snd x) = Inr r"
    and rest: "extract_loop al rp nodes cat lc tp ev rest
                 (case r of None \<Rightarrow> acc | Some dbtNode \<Rightarrow> acc @ [dbtNode]) = Inr ds"
    by (auto simp add: bindE_eq_Inr)
  from Cons.IH [OF rest Cons.prems(2)] r show ?case
    by (cases r) auto
qed

lemma extract_loop_fails:
  "item \<in> set items \<Longrightarrow> extract_entry al rp nodes cat lc tp ev (fst item) (snd item) = Inl e \<Longrightarrow>
     \<exists>e'. extract_loop al rp nodes cat lc tp ev items acc = Inl e'"
proof (induction items arbitrary: acc)
  case Nil
  then show ?case by simp
next
  case (Cons x rest)
  show ?case
  proof (cases "extract_entry al rp nodes cat lc tp ev (fst x) (snd x)")
    case (Inl e0)
    then show ?thesis by simp
  next
    case (Inr r)
    with Cons.prems have "item \<in> set rest" by auto
    from Cons.IH [OF this Cons.prems(2)] Inr show ?thesis by simp
  qed
qed

lemma get_upstreams_loop_fails:
  "JStr k \<in> set ups \<Longrightarrow> map_of all_nodes k = None \<Longrightarrow>
     \<exists>e. get_upstreams_loop rp ups all_nodes lc tp ev acc = Inl e"
proof (induction ups arbitrary: acc)
  case Nil
  then show ?case by simp
next
  case (Cons u rest)
  show ?case
  proof (cases "u = JStr k")
    case True
    with Cons.prems(2) show ?thesis by simp
  next
    case False
    with Cons.prems have "JStr k \<in> set rest" by simp
    from Cons.IH [OF this Cons.prems(2)] show ?thesis
      by (auto simp add: bindE_def split: sum.splits)
  qed
qed

lemma bindE_fails: "(\<And>v. m = Inr v \<Longrightarrow> \<exists>e. f v = Inl e) \<Longrightarrow> \<exists>e. bindE m f = Inl e"
  by (cases m) simp_all

lemma extract_entry_dangling:
  assumes "subscript node (JStr ''resource_type'') = Inr rt" and "al rt = Inr True"
    and "subscript node (JStr ''config'') = Inr (JObj cfg)"
    and "''materialized'' \<in> set (map fst cfg)"
    and "subscript node (JStr ''depends_on'') = Inr dep"
    and "subscript dep (JStr ''nodes'') = Inr (JArr ups)"
    and "JStr k \<in> set ups" and "map_of nodes k = None"
  shows "\<exists>e. extract_entry al rp nodes cat lc tp ev key node = Inl e"
proof -
  have up: "\<exists>e. get_upstreams rp (JArr ups) nodes lc tp ev = Inl e"
    using get_upstreams_loop_fails [OF assms(7,8)] by (simp add: get_upstreams_def)
  have mat: "\<exists>e. entity_materialization rp nodes cat lc tp ev key node = Inl e"
    unfolding entity_materialization_def using assms up
    by (auto intro!: bindE_fails)
  show ?thesis
    unfolding extract_entry_def using assms(1,2) mat
    by (auto intro!: bindE_fails)
qed

lemma extract_entry_allowed:
  assumes "subscript node (JStr ''resource_type'') = Inr rt" and "al rt = Inr True"
    and "extract_entry al rp nodes cat lc tp ev key node = Inr r"
  shows "\<exists>d. r = Some d"
  using assms(3) unfolding extract_entry_def
  apply (simp add: assms(1,2))
  apply (elim bindE_InrE)
  apply auto
  done

lemma extract_entry_no_catalog:
  assumes "subscript node (JStr ''resource_type'') = Inr rt" and "al rt = Inr True"
    and "map_of cat key = None"
    and "\<And>cfg m. subscript node (JStr ''config'') = Inr (JObj cfg) \<Longrightarrow>
            map_of cfg ''materialized'' = Some m \<Longrightarrow> lc \<and> m \<noteq> JStr ''ephemeral''"
  shows "\<exists>e. extract_entry al rp nodes cat lc tp ev key node = Inl e"
proof (cases "extract_entry al rp nodes cat lc tp ev key node")
  case (Inl e)
  then show ?thesis by blast
next
  case (Inr r)
  from extract_entry_allowed [OF assms(1) assms(2) Inr] Inr obtain d
    where d: "extract_entry al rp nodes cat lc tp ev key node = Inr (Some d)"
    by blast
  from extract_entry_Some [OF d] obtain mu cols where
    mu: "entity_materialization rp nodes cat lc tp ev key node = Inr mu"
    and cols: "entity_columns cat lc key (fst mu) = Inr cols"
    by blast
  from mu obtain cfgv ks where cfgv: "subscript node (JStr ''config'') = Inr cfgv"
    and ks: "dict_keys cfgv = Inr ks"
    unfolding entity_materialization_def by (elim bindE_InrE)
  from ks obtain cfg where cfg: "cfgv = JObj cfg" by (auto simp add: dict_keys_Inr)
  show ?thesis
  proof (cases "''materialized'' \<in> set (map fst cfg)")
    case True
    from entity_materialization_model [OF cfgv [unfolded cfg] True mu]
    have m: "map_of cfg ''materialized'' = Some (fst mu)" by blast
    from assms(4) [OF cfgv [unfolded cfg] m] cols assms(3) show ?thesis
      by (simp add: entity_columns_Inr)
  next
    case False
    from entity_materialization_source [OF cfgv [unfolded cfg] False mu] assms(3)
    show ?thesis by auto
  qed
qed

subsection \<open>Dictionaries, columns, upstreams\<close>

lemma map_of_dict_set: "map_of (dict_set d k v) = (map_of d)(k \<mapsto> v)"
  by (induction d k v rule: dict_set.induct) auto

lemma foldl_dict_set:
  "map_of (foldl (\<lambda>d kv. dict_set d (fst kv) (snd kv)) d items) = map_of d ++ map_of (rev items)"
proof (induction items arbitrary: d)
  case Nil
  then show ?case by simp
next
  case (Cons x xs)
  have "map_of (dict_set d (fst x) (snd x)) ++ map_of (rev xs)
          = map_of d ++ (map_of [x] ++ map_of (rev xs))"
    by (cases x) (simp add: map_of_dict_set fun_eq_iff map_add_def split: option.splits)
  with Cons.IH [of "dict_set d (fst x) (snd x)"] show ?case
    by simp
qed

lemma map_of_rev_distinct: "distinct (map fst xs) \<Longrightarrow> map_of (rev xs) = map_of xs"
proof (induction xs)
  case Nil
  then show ?case by simp
next
  case (Cons x xs)
  then have "fst x \<notin> dom (map_of xs)" by (simp add: dom_map_of_conv_image_fst)
  then have "map_of xs (fst x) = None" by blast
  with Cons show ?case
    by (cases x) (auto simp add: fun_eq_iff map_add_def split: option.splits)
qed

lemma map_of_dict_merge:
  "distinct (map fst a) \<Longrightarrow> distinct (map fst b) \<Longrightarrow>
     map_of (dict_merge a b) = map_of a ++ map_of b"
  by (simp add: dict_merge_def dict_display_def foldl_dict_set map_of_rev_distinct)

lemma loadManifestAndCatalog_sections:
  assumes "open_file ext mp = Inr mtext" and "open_file ext cp = Inr ctext"
    and "json_load ext mtext = Inr mdoc" and "json_load ext ctext = Inr cdoc"
    and "subscript mdoc (JStr ''nodes'') = Inr (JObj mn)"
    and "subscript mdoc (JStr ''sources'') = Inr (JObj ms)"
    and "subscript cdoc (JStr ''nodes'') = Inr (JObj cn)"
    and "subscript cdoc (JStr ''sources'') = Inr (JObj cs)"
  shows "loadManifestAndCatalog ext mp cp lc tp ev al =
           extract_dbt_entities (dict_merge mn ms) (dict_merge cn cs) lc tp ev al (py_repr ext)"
  using assms by (simp add: loadManifestAndCatalog_def Let_def)

lemma get_columns_loop_result:
  "get_columns_loop raw keys acc = Inr cols \<Longrightarrow>
     \<exists>new. cols = acc @ new \<and>
       list_all2 (\<lambda>key c. \<exists>rc. subscript raw key = Inr rc \<and>
            subscript rc (JStr ''comment'') = Inr (comment c) \<and>
            subscript rc (JStr ''type'') = Inr (data_type c) \<and>
            subscript rc (JStr ''index'') = Inr (index c) \<and>
            subscript rc (JStr ''name'') = Inr (DBTColumn.name c)) keys new"
proof (induction keys arbitrary: acc)
  case Nil
  then show ?case by simp
next
  case (Cons key rest)
  from Cons.prems obtain rc cm ty ix nm where
    rc: "subscript raw key = Inr rc"
    and f: "subscript rc (JStr ''comment'') = Inr cm" "subscript rc (JStr ''type'') = Inr ty"
      "subscript rc (JStr ''index'') = Inr ix" "subscript rc (JStr ''name'') = Inr nm"
    and rest: "get_columns_loop raw rest
                 (acc @ [\<lparr>DBTColumn.name = nm, comment = cm, index = ix, data_type = ty\<rparr>]) = Inr cols"
    by (auto simp add: bindE_eq_Inr)
  from Cons.IH [OF rest] obtain new where
    new: "cols = (acc @ [\<lparr>DBTColumn.name = nm, comment = cm, index = ix, data_type = ty\<rparr>]) @ new"
    and all: "list_all2 (\<lambda>key c. \<exists>rc. subscript raw key = Inr rc \<and>
            subscript rc (JStr ''comment'') = Inr (comment c) \<and>
            subscript rc (JStr ''type'') = Inr (data_type c) \<and>
            subscript rc (JStr ''index'') = Inr (index c) \<and>
            subscript rc (JStr ''name'') = Inr (DBTColumn.name c)) rest new"
    by blast
  show ?case
    apply (rule exI [of _ "\<lparr>DBTColumn.name = nm, comment = cm, index = ix, data_type = ty\<rparr> # new"])
    using new all rc f by simp
qed

lemma get_schema_metadata_loop_result:
  "get_schema_metadata_loop ext ds cols acc rep = (Inr fs, rep') \<Longrightarrow>
     \<exists>new. fs = acc @ new \<and>
       map fieldPath new = map DBTColumn.name cols \<and>
       map nativeDataType new = map data_type cols \<and>
       map SchemaField.description new = map comment cols \<and>
       map nullable new = replicate (length cols) False"
proof (induction cols arbitrary: acc rep)
  case Nil
  then show ?case by simp
next
  case (Cons c rest)
  from Cons.prems obtain t r1 where
    t: "get_column_type ext rep ds (data_type c) = (Inr t, r1)"
    and rest: "get_schema_metadata_loop ext ds rest
        (acc @ [\<lparr>fieldPath = DBTColumn.name c, nativeDataType = data_type c,
                  type = t, description = comment c, nullable = False,
                  recursive = False\<rparr>]) r1 = (Inr fs, rep')"
    by (auto split: prod.splits sum.splits)
  from Cons.IH [OF rest] show ?case by auto
qed

lemma get_upstreams_loop_result:
  "get_upstreams_loop rp ups all lc tp ev acc = Inr urns \<Longrightarrow>
     \<exists>new. urns = acc @ new \<and>
       list_all2 (\<lambda>u urn. \<exists>kvs db sch nm. subscript (JObj all) u = Inr (JObj kvs) \<and>
            map_of kvs ''database'' = Some db \<and> map_of kvs ''schema'' = Some sch \<and>
            map_of kvs (spec_logical_name_key lc kvs) = Some nm \<and>
            urn = get_urn_from_dbtNode (py_format rp db) (py_format rp sch) (py_format rp nm) tp ev)
         ups new"
proof (induction ups arbitrary: acc)
  case Nil
  then show ?case by simp
next
  case (Cons u rest)
  from Cons.prems obtain kvs db sch nm where
    e: "subscript (JObj all) u = Inr (JObj kvs)"
    and f: "map_of kvs ''database'' = Some db" "map_of kvs ''schema'' = Some sch"
      "map_of kvs (spec_logical_name_key lc kvs) = Some nm"
    and rest: "get_upstreams_loop rp rest all lc tp ev
        (acc @ [get_urn_from_dbtNode (py_format rp db) (py_format rp sch) (py_format rp nm) tp ev])
         = Inr urns"
    apply (simp add: bindE_eq_Inr subscript_str_Inr)
    apply (elim exE conjE)
    apply (auto simp add: spec_logical_name_key_def split: if_splits option.splits)
    done
  from Cons.IH [OF rest] obtain new where
    new: "urns = (acc @ [get_urn_from_dbtNode (py_format rp db) (py_format rp sch) (py_format rp nm) tp ev]) @ new"
    and all: "list_all2 (\<lambda>u urn. \<exists>kvs db sch nm. subscript (JObj all) u = Inr (JObj kvs) \<and>
            map_of kvs ''database'' = Some db \<and> map_of kvs ''schema'' = Some sch \<and>
            map_of kvs (spec_logical_name_key lc kvs) = Some nm \<and>
            urn = get_urn_from_dbtNode (py_format rp db) (py_format rp sch) (py_format rp nm) tp ev)
         rest new"
    by blast
  show ?case
    apply (rule exI [of _ "get_urn_from_dbtNode (py_format rp db) (py_format rp sch) (py_format rp nm) tp ev # new"])
    using new all e f by auto
qed

subsection \<open>Emission\<close>

lemma foldl_append_map: "foldl (\<lambda>acc x. acc @ [f x]) acc xs = acc @ map f xs"
  by (induction xs arbitrary: acc) simp_all

lemma get_upstream_lineage_upstreams: "upstreams (get_upstream_lineage t ups) =
     map (\<lambda>dep. \<lparr>dataset = dep,
                  auditStamp = \<lparr>time = int_of_float t * 1000, actor = ''urn:li:corpuser:dbt_executor''\<rparr>,
                  type = TRANSFORMED\<rparr>) ups"
  by (simp add: get_upstream_lineage_def Let_def foldl_append_map)

lemma emit_loop_yielded:
  "wu \<in> set (yielded (emit_loop ext self n rep nodes)) \<Longrightarrow>
     \<exists>node \<in> set nodes. \<exists>m r r'. emit_node ext self m r node = (Inr wu, r')"
proof (induction nodes arbitrary: n rep)
  case Nil
  then show ?case by simp
next
  case (Cons node rest)
  then show ?case
    by (fastforce simp add: Let_def split: prod.splits sum.splits)
qed

lemma entity_materialization_config:
  assumes "entity_materialization rp nodes cat lc tp ev key node = Inr mu"
  shows "\<exists>cfg. subscript node (JStr ''config'') = Inr (JObj cfg)"
proof -
  from assms obtain cfgv ks where "subscript node (JStr ''config'') = Inr cfgv"
    and "dict_keys cfgv = Inr ks"
    unfolding entity_materialization_def by (elim bindE_InrE)
  then show ?thesis by (auto simp add: dict_keys_Inr)
qed

lemma emit_node_built:
  assumes "emit_node ext self n rep node = (Inr wu, rep')"
  shows "wu_id wu = datahub_urn node \<and> urn (proposedSnapshot (mce wu)) = datahub_urn node \<and>
     (if load_schemas (config self)
      then \<exists>sm r. get_schema_metadata ext (time_time ext (Suc n)) rep node (DBTSource.platform self)
                     = (Inr sm, r) \<and>
             aspects (proposedSnapshot (mce wu)) =
               [DatasetPropertiesAspect \<lparr>description = dbt_name node,
                   customProperties = get_custom_properties node, tags = []\<rparr>,
                UpstreamLineageAspect (get_upstream_lineage (time_time ext n) (upstream_urns node)),
                SchemaMetadataAspect sm]
      else aspects (proposedSnapshot (mce wu)) =
               [DatasetPropertiesAspect \<lparr>description = dbt_name node,
                   customProperties = get_custom_properties node, tags = []\<rparr>,
                UpstreamLineageAspect (get_upstream_lineage (time_time ext n) (upstream_urns node))])"
  using assms
  by (auto simp add: emit_node_def Let_def split: if_splits prod.splits sum.splits)

lemma get_workunits_yielded:
  assumes "wu \<in> set (yielded (get_workunits ext self))"
  shows "\<exists>node n rep rep'. emit_node ext self n rep node = (Inr wu, rep')"
proof -
  from assms obtain nodes where
    "wu \<in> set (yielded (emit_loop ext self 0 (report self) nodes))"
    by (auto simp add: get_workunits_def split: sum.splits)
  from emit_loop_yielded [OF this] show ?thesis by blast
qed

subsection \<open>First failures\<close>

lemma extract_loop_append:
  "extract_loop al rp nodes cat lc tp ev pre acc = Inr acc' \<Longrightarrow>
     extract_loop al rp nodes cat lc tp ev (pre @ rest) acc =
     extract_loop al rp nodes cat lc tp ev rest acc'"
proof (induction pre arbitrary: acc)
  case Nil
  then show ?case by simp
next
  case (Cons x pre)
  from Cons.prems obtain r where
    r: "extract_entry al rp nodes cat lc tp ev (fst x) (snd x) = Inr r"
    and rest: "extract_loop al rp nodes cat lc tp ev pre
                 (case r of None \<Rightarrow> acc | Some dbtNode \<Rightarrow> acc @ [dbtNode]) = Inr acc'"
    by (auto simp add: bindE_eq_Inr)
  from Cons.IH [OF rest] r show ?case by simp
qed

lemma get_upstreams_loop_append:
  "get_upstreams_loop rp ups1 all lc tp ev acc = Inr acc' \<Longrightarrow>
     get_upstreams_loop rp (ups1 @ rest) all lc tp ev acc =
     get_upstreams_loop rp rest all lc tp ev acc'"
proof (induction ups1 arbitrary: acc)
  case Nil
  then show ?case by simp
next
  case (Cons u ups1)
  from Cons.prems obtain e db sch h nm where
    f: "subscript (JObj all) u = Inr e" "subscript e (JStr ''database'') = Inr db"
       "subscript e (JStr ''schema'') = Inr sch" "py_in ''identifier'' e = Inr h"
       "(if h \<and> \<not> lc then subscript e (JStr ''identifier'')
         else subscript e (JStr ''name'')) = Inr nm"
    and rest: "get_upstreams_loop rp ups1 all lc tp ev
        (acc @ [get_urn_from_dbtNode (py_format rp db) (py_format rp sch) (py_format rp nm) tp ev])
         = Inr acc'"
    by (auto simp add: bindE_eq_Inr)
  from Cons.IH [OF rest] f show ?case by simp
qed

lemma get_upstreams_first_missing:
  assumes "get_upstreams rp (JArr ups1) all lc tp ev = Inr us" and "map_of all k = None"
  shows "get_upstreams rp (JArr (ups1 @ JStr k # ups2)) all lc tp ev = Inl (KeyError (JStr k))"
proof -
  from assms(1) have "get_upstreams_loop rp ups1 all lc tp ev [] = Inr us"
    by (simp add: get_upstreams_def)
  from get_upstreams_loop_append [OF this] assms(2) show ?thesis
    by (simp add: get_upstreams_def)
qed

lemma map_of_key_present: "k \<in> set (map fst kvs) \<Longrightarrow> \<exists>v. map_of kvs k = Some v"
  by (induction kvs) auto

lemma extract_first_failure:
  assumes "nodes = pre @ (key, node) # post"
    and "extract_loop al rp nodes cat lc tp ev pre [] = Inr acc"
    and "extract_entry al rp nodes cat lc tp ev key node = Inl e"
  shows "extract_dbt_entities nodes cat lc tp ev al rp = Inl e"
proof -
  have "extract_loop al rp nodes cat lc tp ev (pre @ (key, node) # post) [] =
        extract_loop al rp nodes cat lc tp ev ((key, node) # post) acc"
    by (rule extract_loop_append [OF assms(2)])
  with assms(3) have "extract_loop al rp nodes cat lc tp ev (pre @ (key, node) # post) [] = Inl e"
    by simp
  with assms(1) show ?thesis
    by (simp add: extract_dbt_entities_def)
qed

lemma entity_materialization_first_missing:
  assumes "subscript node (JStr ''config'') = Inr (JObj cfg)"
    and "''materialized'' \<in> set (map fst cfg)"
    and "subscript node (JStr ''depends_on'') = Inr dep"
    and "subscript dep (JStr ''nodes'') = Inr (JArr (ups1 @ JStr k # ups2))"
    and "get_upstreams rp (JArr ups1) nodes lc tp ev = Inr us"
    and "map_of nodes k = None"
  shows "entity_materialization rp nodes cat lc tp ev key node = Inl (KeyError (JStr k))"
proof -
  from map_of_key_present [OF assms(2)] obtain m where "map_of cfg ''materialized'' = Some m"
    by blast
  with assms(1-4) get_upstreams_first_missing [OF assms(5,6), of ups2] show ?thesis
    by (simp add: entity_materialization_def)
qed

lemma entity_materialization_no_catalog:
  assumes "subscript node (JStr ''config'') = Inr (JObj cfg)"
    and "''materialized'' \<notin> set (map fst cfg)"
    and "map_of cat key = None"
  shows "entity_materialization rp nodes cat lc tp ev key node = Inl (KeyError (JStr key))"
  using assms by (simp add: entity_materialization_def)

lemma entity_materialization_model_ok:
  assumes "subscript node (JStr ''config'') = Inr (JObj cfg)"
    and "map_of cfg ''materialized'' = Some m"
    and "subscript node (JStr ''depends_on'') = Inr dep"
    and "subscript dep (JStr ''nodes'') = Inr ups"
    and "get_upstreams rp ups nodes lc tp ev = Inr us"
  shows "entity_materialization rp nodes cat lc tp ev key node = Inr (m, us)"
proof -
  from assms(2) have "''materialized'' \<in> set (map fst cfg)"
    by (metis map_of_SomeD fst_conv image_eqI set_map)
  with assms show ?thesis
    by (simp add: entity_materialization_def)
qed

lemma extract_entry_at_materialization:
  assumes "subscript node (JStr ''resource_type'') = Inr rt" and "al rt = Inr True"
    and "subscript node (JStr ''database'') = Inr db"
    and "subscript node (JStr ''schema'') = Inr sch"
    and "subscript node (JStr ''original_file_path'') = Inr fp"
    and "entity_name lc node = Inr nm"
  shows "extract_entry al rp nodes cat lc tp ev key node =
     bindE (entity_materialization rp nodes cat lc tp ev key node) (\<lambda>mu.
     bindE (entity_columns cat lc key (fst mu)) (\<lambda>columns.
     Inr (Some \<lparr>dbt_name = key, database = db, schema = sch,
                 dbt_file_path = fp, node_type = rt,
                 materialization = fst mu, name = nm, columns = columns,
                 upstream_urns = snd mu,
                 datahub_urn =
                   get_urn_from_dbtNode (py_format rp db) (py_format rp sch)
                     (py_format rp nm) tp ev\<rparr>)))"
  using assms by (simp add: extract_entry_def)

subsection \<open>The scenario, evaluated\<close>

lemmas scenario_defs = raw_events_def events_model_def raw_events_catalog_def events_catalog_def
  scenario_nodes_def scenario_catalog_nodes_def scenario_manifest_def scenario_catalog_def
  events_node_def raw_events_node_def

lemmas extract_defs = extract_dbt_entities_def extract_entry_def entity_name_def
  entity_materialization_def entity_columns_def get_upstreams_def get_columns_def
  get_urn_from_dbtNode_def py_format_def Let_def

lemma scenario_extract:
  "extract_dbt_entities scenario_nodes scenario_catalog_nodes True ''postgres'' ''PROD''
     allow_all (\<lambda>v. ''None'') = Inr [events_node, raw_events_node]"
  by (simp add: scenario_defs extract_defs)

lemma scenario_merge:
  "dict_merge [(''model.events'', events_model)] [(''source.raw_events'', raw_events)] = scenario_nodes"
  "dict_merge [(''model.events'', events_catalog)] [(''source.raw_events'', raw_events_catalog)]
     = scenario_catalog_nodes"
  by (simp_all add: dict_merge_def dict_display_def scenario_nodes_def scenario_catalog_nodes_def)

lemma scenario_load:
  "loadManifestAndCatalog scenario_ext ''manifest.json'' ''catalog.json'' True ''postgres'' ''PROD''
     allow_all = Inr [events_node, raw_events_node]"
  by (simp add: loadManifestAndCatalog_def scenario_ext_def scenario_manifest_def
        scenario_catalog_def scenario_merge scenario_extract)

lemmas emit_defs = emit_node_def get_schema_metadata_def get_column_type_def call_type_def
  field_type_mapping_def dict_display_def report_warning_def report_workunit_def
  get_custom_properties_def get_upstream_lineage_def int_of_float_def py_format_def Let_def

lemma scenario_run:
  "raised (get_workunits scenario_ext (scenario_source True)) = None"
  "map wu_id (yielded (get_workunits scenario_ext (scenario_source True))) =
     [''urn:li:dataset:(urn:li:dataPlatform:postgres,db.public.events,PROD)'',
      ''urn:li:dataset:(urn:li:dataPlatform:postgres,db.public.raw_events,PROD)'']"
  "warnings (final_report (get_workunits scenario_ext (scenario_source True))) =
     [(''model.events'', ''unable to map type totally_unknown_type to metadata schema''),
      (''source.raw_events'', ''unable to map type varchar(255) to metadata schema'')]"
  by (simp_all add: get_workunits_def scenario_source_def scenario_load)
     (simp_all add: scenario_ext_def events_node_def raw_events_node_def emit_defs)


section \<open>Claims\<close>

text \<open>
  C1 (as amended). On five strings the resolver returns
  \<open>urn:li:dataset:(urn:li:dataPlatform:{targetPlatform},{triple},{env})\<close>, where the
  triple is \<open>database.schema.logicalName\<close> without its double quotes. No double quote
  is left in the triple; the platform and the environment are inserted as they are, so
  the result has a double quote exactly when one of these two has.
\<close>

theorem get_urn_from_dbtNode_strips_triple:
  "get_urn_from_dbtNode db sch nm tp ev =
     ''urn:li:dataset:(urn:li:dataPlatform:'' @ tp @ '','' @
     filter (\<lambda>c. c \<noteq> CHR 0x22) (db @ ''.'' @ sch @ ''.'' @ nm) @
     '','' @ ev @ '')''
   \<and> CHR 0x22 \<notin> set (filter (\<lambda>c. c \<noteq> CHR 0x22) (db @ ''.'' @ sch @ ''.'' @ nm))
   \<and> (CHR 0x22 \<in> set (get_urn_from_dbtNode db sch nm tp ev)
        \<longleftrightarrow> CHR 0x22 \<in> set tp \<or> CHR 0x22 \<in> set ev)"
  by (auto simp add: get_urn_from_dbtNode_def Let_def)

text \<open>
  C1 as stated fails: a double quote in the environment (or in the platform) reaches
  the result.
\<close>

theorem get_urn_from_dbtNode_quote_in_env:
  "get_urn_from_dbtNode ''db'' ''public'' ''events'' ''postgres'' [CHR 0x22] =
     ''urn:li:dataset:(urn:li:dataPlatform:postgres,db.public.events,'' @ [CHR 0x22] @ '')''
   \<and> CHR 0x22 \<in> set (get_urn_from_dbtNode ''db'' ''public'' ''events'' ''postgres'' [CHR 0x22])"
  by (simp add: get_urn_from_dbtNode_def Let_def)

text \<open>
  C2. Take an extraction that succeeds and an entry of the manifest that passes the
  filter. The entry has a node in the result, under its key. If the config of the entry
  has the key \<open>materialized\<close>, the materialization of the node is the value under
  that key and its upstream identifiers are what \<open>get_upstreams\<close> makes of the list
  under \<open>depends_on.nodes\<close>; if not, the materialization is the metadata type of the
  catalog entry under the same key and the node has no upstream identifier.
\<close>

theorem extract_materialization_and_upstreams:
  assumes "extract_dbt_entities nodes cat lc tp ev al rp = Inr ds"
    and "(key, node) \<in> set nodes"
    and "subscript node (JStr ''resource_type'') = Inr rt" and "al rt = Inr True"
  shows "\<exists>d cfg. d \<in> set ds \<and> dbt_name d = key \<and>
      subscript node (JStr ''config'') = Inr (JObj cfg) \<and>
      (if ''materialized'' \<in> set (map fst cfg)
       then map_of cfg ''materialized'' = Some (materialization d) \<and>
            (\<exists>dep ups. subscript node (JStr ''depends_on'') = Inr dep \<and>
               subscript dep (JStr ''nodes'') = Inr ups \<and>
               get_upstreams rp ups nodes lc tp ev = Inr (upstream_urns d))
       else (\<exists>c md. map_of cat key = Some c \<and> subscript c (JStr ''metadata'') = Inr md \<and>
               subscript md (JStr ''type'') = Inr (materialization d)) \<and>
            upstream_urns d = [])"
proof -
  from extract_loop_item [OF assms(1) [unfolded extract_dbt_entities_def] assms(2)]
  obtain r where r: "extract_entry al rp nodes cat lc tp ev key node = Inr r"
    and mem: "case r of None \<Rightarrow> True | Some d \<Rightarrow> d \<in> set ds"
    by auto
  from extract_entry_allowed [OF assms(3) assms(4) r] obtain d where d: "r = Some d" by blast
  from extract_entry_Some [OF r [unfolded d]] obtain db sch fp nm mu cols rt' where
    mu: "entity_materialization rp nodes cat lc tp ev key node = Inr mu"
    and rec: "d = \<lparr>dbt_name = key, database = db, schema = sch, dbt_file_path = fp,
            node_type = rt', materialization = fst mu, name = nm, columns = cols,
            upstream_urns = snd mu,
            datahub_urn = get_urn_from_dbtNode (py_format rp db) (py_format rp sch)
                            (py_format rp nm) tp ev\<rparr>"
    by blast
  from entity_materialization_config [OF mu] obtain cfg where
    cfg: "subscript node (JStr ''config'') = Inr (JObj cfg)" by blast
  have "if ''materialized'' \<in> set (map fst cfg)
       then map_of cfg ''materialized'' = Some (materialization d) \<and>
            (\<exists>dep ups. subscript node (JStr ''depends_on'') = Inr dep \<and>
               subscript dep (JStr ''nodes'') = Inr ups \<and>
               get_upstreams rp ups nodes lc tp ev = Inr (upstream_urns d))
       else (\<exists>c md. map_of cat key = Some c \<and> subscript c (JStr ''metadata'') = Inr md \<and>
               subscript md (JStr ''type'') = Inr (materialization d)) \<and>
            upstream_urns d = []"
  proof (cases "''materialized'' \<in> set (map fst cfg)")
    case True
    from entity_materialization_model [OF cfg True mu] True rec show ?thesis by simp
  next
    case False
    from entity_materialization_source [OF cfg False mu] False rec show ?thesis by simp
  qed
  moreover from mem d have "d \<in> set ds" by simp
  moreover from rec have "dbt_name d = key" by simp
  ultimately show ?thesis using cfg by blast
qed

text \<open>The scenario: its source has no \<open>materialized\<close> key, its model has one.\<close>

theorem extract_materialization_and_upstreams_witness:
  "extract_dbt_entities scenario_nodes scenario_catalog_nodes True ''postgres'' ''PROD''
     allow_all (\<lambda>v. ''None'') = Inr [events_node, raw_events_node]
   \<and> (''source.raw_events'', raw_events) \<in> set scenario_nodes
   \<and> subscript raw_events (JStr ''resource_type'') = Inr (JStr ''source'')
   \<and> allow_all (JStr ''source'') = Inr True
   \<and> (\<exists>d cfg. d \<in> set [events_node, raw_events_node] \<and> dbt_name d = ''source.raw_events'' \<and>
      subscript raw_events (JStr ''config'') = Inr (JObj cfg) \<and>
      (if ''materialized'' \<in> set (map fst cfg)
       then map_of cfg ''materialized'' = Some (materialization d) \<and>
            (\<exists>dep ups. subscript raw_events (JStr ''depends_on'') = Inr dep \<and>
               subscript dep (JStr ''nodes'') = Inr ups \<and>
               get_upstreams (\<lambda>v. ''None'') ups scenario_nodes True ''postgres'' ''PROD''
                 = Inr (upstream_urns d))
       else (\<exists>c md. map_of scenario_catalog_nodes ''source.raw_events'' = Some c \<and>
               subscript c (JStr ''metadata'') = Inr md \<and>
               subscript md (JStr ''type'') = Inr (materialization d)) \<and>
            upstream_urns d = []))"
proof -
  have h1: "extract_dbt_entities scenario_nodes scenario_catalog_nodes True ''postgres'' ''PROD''
     allow_all (\<lambda>v. ''None'') = Inr [events_node, raw_events_node]"
    by (rule scenario_extract)
  have h2: "(''source.raw_events'', raw_events) \<in> set scenario_nodes"
    by (simp add: scenario_nodes_def)
  have h3: "subscript raw_events (JStr ''resource_type'') = Inr (JStr ''source'')"
    by (simp add: raw_events_def)
  have h4: "allow_all (JStr ''source'') = Inr True"
    by simp
  from extract_materialization_and_upstreams [OF h1 h2 h3 h4] h1 h2 h3 h4
  show ?thesis by blast
qed

text \<open>
  C5. The columns of an extracted node are those of its catalog entry when its
  materialization is not \<open>ephemeral\<close> and schema loading is on; otherwise it has no
  column. A work unit that the driver yields has a schema aspect exactly when
  \<open>load_schemas\<close> is true.
\<close>

theorem columns_and_schema_aspect_gated:
  "(extract_dbt_entities nodes cat lc tp ev al rp = Inr ds \<and> d \<in> set ds \<longrightarrow>
      (if materialization d \<noteq> JStr ''ephemeral'' \<and> lc
       then \<exists>c. map_of cat (dbt_name d) = Some c \<and> get_columns c = Inr (columns d)
       else columns d = [])) \<and>
   (wu \<in> set (yielded (get_workunits ext self)) \<longrightarrow>
      ((\<exists>sm. SchemaMetadataAspect sm \<in> set (aspects (proposedSnapshot (mce wu))))
         \<longleftrightarrow> load_schemas (config self)))"
proof (intro conjI impI)
  assume a: "extract_dbt_entities nodes cat lc tp ev al rp = Inr ds \<and> d \<in> set ds"
  from extract_loop_node [of al rp nodes cat lc tp ev nodes "[]" ds d] a
  obtain item where "extract_entry al rp nodes cat lc tp ev (fst item) (snd item) = Inr (Some d)"
    by (auto simp add: extract_dbt_entities_def)
  from extract_entry_Some [OF this] obtain db sch fp nm mu cols rt where
    cols: "entity_columns cat lc (fst item) (fst mu) = Inr cols"
    and rec: "d = \<lparr>dbt_name = fst item, database = db, schema = sch, dbt_file_path = fp,
            node_type = rt, materialization = fst mu, name = nm, columns = cols,
            upstream_urns = snd mu,
            datahub_urn = get_urn_from_dbtNode (py_format rp db) (py_format rp sch)
                            (py_format rp nm) tp ev\<rparr>"
    by blast
  from cols rec show "if materialization d \<noteq> JStr ''ephemeral'' \<and> lc
       then \<exists>c. map_of cat (dbt_name d) = Some c \<and> get_columns c = Inr (columns d)
       else columns d = []"
    by (simp add: entity_columns_Inr)
next
  assume "wu \<in> set (yielded (get_workunits ext self))"
  from get_workunits_yielded [OF this] obtain node n rep rep' where
    "emit_node ext self n rep node = (Inr wu, rep')" by blast
  from emit_node_built [OF this]
  show "(\<exists>sm. SchemaMetadataAspect sm \<in> set (aspects (proposedSnapshot (mce wu))))
         \<longleftrightarrow> load_schemas (config self)"
    by (auto split: if_splits)
qed

text \<open>The scenario, with schema loading on.\<close>

theorem columns_and_schema_aspect_gated_witness:
  "(extract_dbt_entities scenario_nodes scenario_catalog_nodes True ''postgres'' ''PROD''
     allow_all (\<lambda>v. ''None'') = Inr [events_node, raw_events_node]
    \<and> raw_events_node \<in> set [events_node, raw_events_node])
   \<and> (if materialization raw_events_node \<noteq> JStr ''ephemeral'' \<and> True
       then \<exists>c. map_of scenario_catalog_nodes (dbt_name raw_events_node) = Some c \<and>
              get_columns c = Inr (columns raw_events_node)
       else columns raw_events_node = [])
   \<and> hd (yielded (get_workunits scenario_ext (scenario_source True)))
        \<in> set (yielded (get_workunits scenario_ext (scenario_source True)))
   \<and> ((\<exists>sm. SchemaMetadataAspect sm \<in> set (aspects (proposedSnapshot (mce
          (hd (yielded (get_workunits scenario_ext (scenario_source True))))))))
        \<longleftrightarrow> load_schemas (config (scenario_source True)))"
proof -
  have h1: "extract_dbt_entities scenario_nodes scenario_catalog_nodes True ''postgres'' ''PROD''
     allow_all (\<lambda>v. ''None'') = Inr [events_node, raw_events_node]
    \<and> raw_events_node \<in> set [events_node, raw_events_node]"
    by (simp add: scenario_extract)
  have "yielded (get_workunits scenario_ext (scenario_source True)) \<noteq> []"
    using scenario_run(2) by auto
  then have h2: "hd (yielded (get_workunits scenario_ext (scenario_source True)))
        \<in> set (yielded (get_workunits scenario_ext (scenario_source True)))"
    by simp
  from columns_and_schema_aspect_gated
         [where nodes = scenario_nodes and cat = scenario_catalog_nodes and lc = True
            and tp = "''postgres''" and ev = "''PROD''" and al = allow_all
            and rp = "\<lambda>v. ''None''" and ds = "[events_node, raw_events_node]"
            and d = raw_events_node
            and wu = "hd (yielded (get_workunits scenario_ext (scenario_source True)))"
            and ext = scenario_ext and self = "scenario_source True"]
       h1 h2
  show ?thesis by blast
qed

text \<open>
  C7. The lineage record has one entry for each upstream identifier, in the order of the
  input, each with the actor \<open>urn:li:corpuser:dbt_executor\<close> and the type
  \<open>TRANSFORMED\<close>; for no identifier it is a record with no entry. The driver puts the
  lineage record of the node second among the aspects of the work unit it builds, and
  every work unit it yields has one.
\<close>

theorem lineage_one_entry_per_upstream:
  "upstreams (get_upstream_lineage t ups) =
     map (\<lambda>dep. \<lparr>dataset = dep,
                  auditStamp = \<lparr>time = int_of_float t * 1000,
                                 actor = ''urn:li:corpuser:dbt_executor''\<rparr>,
                  type = TRANSFORMED\<rparr>) ups
   \<and> get_upstream_lineage t [] = \<lparr>upstreams = []\<rparr>
   \<and> (emit_node ext self n rep node = (Inr wu, rep') \<longrightarrow>
        aspects (proposedSnapshot (mce wu)) ! 1 =
          UpstreamLineageAspect (get_upstream_lineage (time_time ext n) (upstream_urns node)))
   \<and> (wu \<in> set (yielded (get_workunits ext self)) \<longrightarrow>
        (\<exists>lineage. UpstreamLineageAspect lineage \<in> set (aspects (proposedSnapshot (mce wu)))))"
proof (intro conjI impI)
  show "upstreams (get_upstream_lineage t ups) =
     map (\<lambda>dep. \<lparr>dataset = dep,
                  auditStamp = \<lparr>time = int_of_float t * 1000,
                                 actor = ''urn:li:corpuser:dbt_executor''\<rparr>,
                  type = TRANSFORMED\<rparr>) ups"
    by (rule get_upstream_lineage_upstreams)
  show "get_upstream_lineage t [] = \<lparr>upstreams = []\<rparr>"
    by (simp add: get_upstream_lineage_def)
next
  assume "emit_node ext self n rep node = (Inr wu, rep')"
  from emit_node_built [OF this]
  show "aspects (proposedSnapshot (mce wu)) ! 1 =
          UpstreamLineageAspect (get_upstream_lineage (time_time ext n) (upstream_urns node))"
    by (auto split: if_splits)
next
  assume "wu \<in> set (yielded (get_workunits ext self))"
  from get_workunits_yielded [OF this] obtain node n rep rep' where
    "emit_node ext self n rep node = (Inr wu, rep')" by blast
  from emit_node_built [OF this]
  show "\<exists>lineage. UpstreamLineageAspect lineage \<in> set (aspects (proposedSnapshot (mce wu)))"
    by (auto split: if_splits)
qed

text \<open>The source of the scenario, emitted with schema loading off, and the first work
  unit of the run with schema loading on.\<close>

theorem lineage_one_entry_per_upstream_witness:
  "emit_node scenario_ext (scenario_source False) 0 \<lparr>warnings = [], workunit_ids = []\<rparr>
      raw_events_node =
     (Inr \<lparr>wu_id = ''urn:li:dataset:(urn:li:dataPlatform:postgres,db.public.raw_events,PROD)'',
           mce = \<lparr>proposedSnapshot =
             \<lparr>urn = ''urn:li:dataset:(urn:li:dataPlatform:postgres,db.public.raw_events,PROD)'',
              aspects =
                [DatasetPropertiesAspect
                   \<lparr>description = ''source.raw_events'',
                    customProperties = [(''dbt_node_type'', JStr ''source''),
                                        (''materialization'', JStr ''BASE TABLE''),
                                        (''dbt_file_path'', JStr ''models/sources.yml'')],
                    tags = []\<rparr>,
                 UpstreamLineageAspect \<lparr>upstreams = []\<rparr>]\<rparr>\<rparr>\<rparr>,
      \<lparr>warnings = [],
       workunit_ids = [''urn:li:dataset:(urn:li:dataPlatform:postgres,db.public.raw_events,PROD)'']\<rparr>)
   \<and> [DatasetPropertiesAspect
          \<lparr>description = ''source.raw_events'',
           customProperties = [(''dbt_node_type'', JStr ''source''),
                               (''materialization'', JStr ''BASE TABLE''),
                               (''dbt_file_path'', JStr ''models/sources.yml'')],
           tags = []\<rparr>,
        UpstreamLineageAspect \<lparr>upstreams = []\<rparr>] ! 1 =
       UpstreamLineageAspect
         (get_upstream_lineage (time_time scenario_ext 0) (upstream_urns raw_events_node))
   \<and> hd (yielded (get_workunits scenario_ext (scenario_source True)))
        \<in> set (yielded (get_workunits scenario_ext (scenario_source True)))
   \<and> (\<exists>lineage. UpstreamLineageAspect lineage \<in> set (aspects (proposedSnapshot (mce
          (hd (yielded (get_workunits scenario_ext (scenario_source True))))))))"
proof -
  have h1: "emit_node scenario_ext (scenario_source False) 0 \<lparr>warnings = [], workunit_ids = []\<rparr>
      raw_events_node =
     (Inr \<lparr>wu_id = ''urn:li:dataset:(urn:li:dataPlatform:postgres,db.public.raw_events,PROD)'',
           mce = \<lparr>proposedSnapshot =
             \<lparr>urn = ''urn:li:dataset:(urn:li:dataPlatform:postgres,db.public.raw_events,PROD)'',
              aspects =
                [DatasetPropertiesAspect
                   \<lparr>description = ''source.raw_events'',
                    customProperties = [(''dbt_node_type'', JStr ''source''),
                                        (''materialization'', JStr ''BASE TABLE''),
                                        (''dbt_file_path'', JStr ''models/sources.yml'')],
                    tags = []\<rparr>,
                 UpstreamLineageAspect \<lparr>upstreams = []\<rparr>]\<rparr>\<rparr>\<rparr>,
      \<lparr>warnings = [],
       workunit_ids = [''urn:li:dataset:(urn:li:dataPlatform:postgres,db.public.raw_events,PROD)'']\<rparr>)"
    by (simp add: scenario_source_def raw_events_node_def emit_node_def report_workunit_def
          get_custom_properties_def get_upstream_lineage_def Let_def)
  have "yielded (get_workunits scenario_ext (scenario_source True)) \<noteq> []"
    using scenario_run(2) by auto
  then have h2: "hd (yielded (get_workunits scenario_ext (scenario_source True)))
        \<in> set (yielded (get_workunits scenario_ext (scenario_source True)))"
    by simp
  from lineage_one_entry_per_upstream
         [where ext = scenario_ext and self = "scenario_source False" and n = 0
            and rep = "\<lparr>warnings = [], workunit_ids = []\<rparr>" and node = raw_events_node]
       h1 have a: "[DatasetPropertiesAspect
          \<lparr>description = ''source.raw_events'',
           customProperties = [(''dbt_node_type'', JStr ''source''),
                               (''materialization'', JStr ''BASE TABLE''),
                               (''dbt_file_path'', JStr ''models/sources.yml'')],
           tags = []\<rparr>,
        UpstreamLineageAspect \<lparr>upstreams = []\<rparr>] ! 1 =
       UpstreamLineageAspect
         (get_upstream_lineage (time_time scenario_ext 0) (upstream_urns raw_events_node))"
    by (simp add: raw_events_node_def get_upstream_lineage_def)
  from lineage_one_entry_per_upstream
         [where wu = "hd (yielded (get_workunits scenario_ext (scenario_source True)))"
            and ext = scenario_ext and self = "scenario_source True"] h2
  have b: "\<exists>lineage. UpstreamLineageAspect lineage \<in> set (aspects (proposedSnapshot (mce
          (hd (yielded (get_workunits scenario_ext (scenario_source True)))))))"
    by blast
  from h1 a h2 b show ?thesis by blast
qed



text \<open>
  C9. With \<open>t\<close> the reading of the clock that a build takes, every entry of the lineage
  record and both stamps of the schema record bear the time \<open>int(t) * 1000\<close>: one
  value for the whole build, a multiple of 1000, where \<open>int(t)\<close> is \<open>t\<close> without its
  fraction.
\<close>

theorem audit_stamps_whole_seconds:
  "map (\<lambda>u. time (auditStamp u)) (upstreams (get_upstream_lineage t ups))
     = replicate (length ups) (int_of_float t * 1000)
   \<and> (get_schema_metadata ext t rep node pf = (Inr sm, rep') \<longrightarrow>
        time (created sm) = int_of_float t * 1000 \<and>
        time (lastModified sm) = int_of_float t * 1000)
   \<and> (int_of_float t * 1000) mod 1000 = 0
   \<and> \<bar>real_of_int (int_of_float t)\<bar> \<le> \<bar>t\<bar>
   \<and> \<bar>t - real_of_int (int_of_float t)\<bar> < 1"
proof (intro conjI impI)
  show "map (\<lambda>u. time (auditStamp u)) (upstreams (get_upstream_lineage t ups))
     = replicate (length ups) (int_of_float t * 1000)"
    by (simp add: get_upstream_lineage_upstreams map_replicate_const comp_def)
next
  assume "get_schema_metadata ext t rep node pf = (Inr sm, rep')"
  then show "time (created sm) = int_of_float t * 1000"
    and "time (lastModified sm) = int_of_float t * 1000"
    by (auto simp add: get_schema_metadata_def Let_def split: prod.splits sum.splits)
next
  show "(int_of_float t * 1000) mod 1000 = 0" by simp
  show "\<bar>real_of_int (int_of_float t)\<bar> \<le> \<bar>t\<bar>"
    unfolding int_of_float_def by (auto; linarith)
  show "\<bar>t - real_of_int (int_of_float t)\<bar> < 1"
    unfolding int_of_float_def by (auto; linarith)
qed

text \<open>A schema record built three quarters of a second after a full second.\<close>

theorem audit_stamps_whole_seconds_witness:
  "get_schema_metadata scenario_ext 1700000000.75 \<lparr>warnings = [], workunit_ids = []\<rparr>
      (raw_events_node\<lparr>columns := []\<rparr>) ''dbt'' =
     (Inr \<lparr>schemaName = ''source.raw_events'', platform = ''urn:li:dataPlatform:dbt'',
           version = 0, hash = [], platformSchema = \<lparr>tableSchema = []\<rparr>,
           created = \<lparr>time = 1700000000000, actor = ''urn:li:corpuser:dbt_executor''\<rparr>,
           lastModified = \<lparr>time = 1700000000000, actor = ''urn:li:corpuser:dbt_executor''\<rparr>,
           schema_fields = []\<rparr>,
      \<lparr>warnings = [], workunit_ids = []\<rparr>)
   \<and> (1700000000000 :: int) = int_of_float 1700000000.75 * 1000"
proof -
  let ?sm = "\<lparr>schemaName = ''source.raw_events'', platform = ''urn:li:dataPlatform:dbt'',
           version = 0, hash = [], platformSchema = \<lparr>tableSchema = []\<rparr>,
           created = \<lparr>time = 1700000000000, actor = ''urn:li:corpuser:dbt_executor''\<rparr>,
           lastModified = \<lparr>time = 1700000000000, actor = ''urn:li:corpuser:dbt_executor''\<rparr>,
           schema_fields = []\<rparr>"
  have h: "get_schema_metadata scenario_ext 1700000000.75 \<lparr>warnings = [], workunit_ids = []\<rparr>
      (raw_events_node\<lparr>columns := []\<rparr>) ''dbt'' = (Inr ?sm, \<lparr>warnings = [], workunit_ids = []\<rparr>)"
    by (simp add: get_schema_metadata_def raw_events_node_def int_of_float_def Let_def)
  from audit_stamps_whole_seconds
         [where ext = scenario_ext and t = "1700000000.75"
            and rep = "\<lparr>warnings = [], workunit_ids = []\<rparr>"
            and node = "raw_events_node\<lparr>columns := []\<rparr>" and pf = "''dbt''"
            and sm = ?sm and rep' = "\<lparr>warnings = [], workunit_ids = []\<rparr>"] h
  have "time (created ?sm) = int_of_float 1700000000.75 * 1000"
    by blast
  then have "(1700000000000 :: int) = int_of_float 1700000000.75 * 1000"
    by simp
  with h show ?thesis by blast
qed

text \<open>
  C10. In the merge of two dictionaries a key of the second operand has the value the
  second operand gives it, whether or not the first has the key too; the merged
  dictionary is the first overridden by the second. \<open>loadManifestAndCatalog\<close> merges
  \<open>nodes\<close> with \<open>sources\<close>, of the manifest and of the catalog, and extracts from
  the merged dictionaries: whenever the four sections are dictionaries it goes on to the
  extraction, whether or not they share keys.
\<close>

theorem merge_later_operand_wins:
  "(distinct (map fst b) \<and> map_of b k = Some y \<longrightarrow> map_of (dict_merge a b) k = Some y)
   \<and> (distinct (map fst a) \<and> distinct (map fst b) \<longrightarrow>
        map_of (dict_merge a b) = map_of a ++ map_of b)
   \<and> (open_file ext mp = Inr mtext \<and> open_file ext cp = Inr ctext \<and>
      json_load ext mtext = Inr mdoc \<and> json_load ext ctext = Inr cdoc \<and>
      subscript mdoc (JStr ''nodes'') = Inr (JObj mn) \<and>
      subscript mdoc (JStr ''sources'') = Inr (JObj ms) \<and>
      subscript cdoc (JStr ''nodes'') = Inr (JObj cn) \<and>
      subscript cdoc (JStr ''sources'') = Inr (JObj cs) \<longrightarrow>
      loadManifestAndCatalog ext mp cp lc tp ev al =
        extract_dbt_entities (dict_merge mn ms) (dict_merge cn cs) lc tp ev al (py_repr ext))"
proof (intro conjI impI)
  assume "distinct (map fst b) \<and> map_of b k = Some y"
  then show "map_of (dict_merge a b) k = Some y"
    by (simp add: dict_merge_def dict_display_def foldl_dict_set map_of_rev_distinct
          map_add_def)
next
  assume "distinct (map fst a) \<and> distinct (map fst b)"
  then show "map_of (dict_merge a b) = map_of a ++ map_of b"
    by (simp add: map_of_dict_merge)
next
  assume "open_file ext mp = Inr mtext \<and> open_file ext cp = Inr ctext \<and>
      json_load ext mtext = Inr mdoc \<and> json_load ext ctext = Inr cdoc \<and>
      subscript mdoc (JStr ''nodes'') = Inr (JObj mn) \<and>
      subscript mdoc (JStr ''sources'') = Inr (JObj ms) \<and>
      subscript cdoc (JStr ''nodes'') = Inr (JObj cn) \<and>
      subscript cdoc (JStr ''sources'') = Inr (JObj cs)"
  then show "loadManifestAndCatalog ext mp cp lc tp ev al =
        extract_dbt_entities (dict_merge mn ms) (dict_merge cn cs) lc tp ev al (py_repr ext)"
    by (simp add: loadManifestAndCatalog_sections)
qed

text \<open>The key \<open>source.raw_events\<close> in both sections of a manifest: the entry of
  \<open>sources\<close> is the one that is extracted.\<close>

theorem merge_later_operand_wins_witness:
  "(distinct (map fst [(''source.raw_events'', raw_events)]) \<and>
      map_of [(''source.raw_events'', raw_events)] ''source.raw_events'' = Some raw_events)
   \<and> map_of (dict_merge [(''source.raw_events'', events_model)]
                [(''source.raw_events'', raw_events)]) ''source.raw_events'' = Some raw_events
   \<and> (distinct (map fst [(''source.raw_events'', events_model)]) \<and>
      distinct (map fst [(''source.raw_events'', raw_events)]))
   \<and> map_of (dict_merge [(''source.raw_events'', events_model)]
                [(''source.raw_events'', raw_events)])
       = map_of [(''source.raw_events'', events_model)]
           ++ map_of [(''source.raw_events'', raw_events)]
   \<and> (open_file overlap_ext ''manifest.json'' = Inr ''M'' \<and>
      open_file overlap_ext ''catalog.json'' = Inr ''C'' \<and>
      json_load overlap_ext ''M'' = Inr overlap_manifest \<and>
      json_load overlap_ext ''C'' = Inr scenario_catalog \<and>
      subscript overlap_manifest (JStr ''nodes'')
        = Inr (JObj [(''source.raw_events'', events_model)]) \<and>
      subscript overlap_manifest (JStr ''sources'')
        = Inr (JObj [(''source.raw_events'', raw_events)]) \<and>
      subscript scenario_catalog (JStr ''nodes'')
        = Inr (JObj [(''model.events'', events_catalog)]) \<and>
      subscript scenario_catalog (JStr ''sources'')
        = Inr (JObj [(''source.raw_events'', raw_events_catalog)]))
   \<and> loadManifestAndCatalog overlap_ext ''manifest.json'' ''catalog.json'' True ''postgres''
        ''PROD'' allow_all =
      extract_dbt_entities
        (dict_merge [(''source.raw_events'', events_model)] [(''source.raw_events'', raw_events)])
        (dict_merge [(''model.events'', events_catalog)]
           [(''source.raw_events'', raw_events_catalog)])
        True ''postgres'' ''PROD'' allow_all (py_repr overlap_ext)
   \<and> loadManifestAndCatalog overlap_ext ''manifest.json'' ''catalog.json'' True ''postgres''
        ''PROD'' allow_all = Inr [raw_events_node]"
proof -
  have h1: "distinct (map fst [(''source.raw_events'', raw_events)]) \<and>
      map_of [(''source.raw_events'', raw_events)] ''source.raw_events'' = Some raw_events"
    by simp
  have h2: "distinct (map fst [(''source.raw_events'', events_model)]) \<and>
      distinct (map fst [(''source.raw_events'', raw_events)])"
    by simp
  have h3: "open_file overlap_ext ''manifest.json'' = Inr ''M'' \<and>
      open_file overlap_ext ''catalog.json'' = Inr ''C'' \<and>
      json_load overlap_ext ''M'' = Inr overlap_manifest \<and>
      json_load overlap_ext ''C'' = Inr scenario_catalog \<and>
      subscript overlap_manifest (JStr ''nodes'')
        = Inr (JObj [(''source.raw_events'', events_model)]) \<and>
      subscript overlap_manifest (JStr ''sources'')
        = Inr (JObj [(''source.raw_events'', raw_events)]) \<and>
      subscript scenario_catalog (JStr ''nodes'')
        = Inr (JObj [(''model.events'', events_catalog)]) \<and>
      subscript scenario_catalog (JStr ''sources'')
        = Inr (JObj [(''source.raw_events'', raw_events_catalog)])"
    by (simp add: overlap_ext_def scenario_ext_def overlap_manifest_def scenario_catalog_def)
  note inst = merge_later_operand_wins
         [where a = "[(''source.raw_events'', events_model)]"
            and b = "[(''source.raw_events'', raw_events)]"
            and k = "''source.raw_events''" and y = raw_events
            and ext = overlap_ext and mp = "''manifest.json''" and cp = "''catalog.json''"
            and mtext = "''M''" and ctext = "''C''"
            and mdoc = overlap_manifest and cdoc = scenario_catalog
            and mn = "[(''source.raw_events'', events_model)]"
            and ms = "[(''source.raw_events'', raw_events)]"
            and cn = "[(''model.events'', events_catalog)]"
            and cs = "[(''source.raw_events'', raw_events_catalog)]"
            and lc = True and tp = "''postgres''" and ev = "''PROD''" and al = allow_all]
  from inst h1 have a: "map_of (dict_merge [(''source.raw_events'', events_model)]
                [(''source.raw_events'', raw_events)]) ''source.raw_events'' = Some raw_events"
    by blast
  from inst h2 have b: "map_of (dict_merge [(''source.raw_events'', events_model)]
                [(''source.raw_events'', raw_events)])
       = map_of [(''source.raw_events'', events_model)]
           ++ map_of [(''source.raw_events'', raw_events)]"
    by blast
  from inst h3 have c: "loadManifestAndCatalog overlap_ext ''manifest.json'' ''catalog.json''
        True ''postgres'' ''PROD'' allow_all =
      extract_dbt_entities
        (dict_merge [(''source.raw_events'', events_model)] [(''source.raw_events'', raw_events)])
        (dict_merge [(''model.events'', events_catalog)]
           [(''source.raw_events'', raw_events_catalog)])
        True ''postgres'' ''PROD'' allow_all (py_repr overlap_ext)"
    by blast
  have d: "extract_dbt_entities
        (dict_merge [(''source.raw_events'', events_model)] [(''source.raw_events'', raw_events)])
        (dict_merge [(''model.events'', events_catalog)]
           [(''source.raw_events'', raw_events_catalog)])
        True ''postgres'' ''PROD'' allow_all (py_repr overlap_ext) = Inr [raw_events_node]"
    by (simp add: dict_merge_def dict_display_def overlap_ext_def scenario_ext_def
          scenario_defs extract_defs)
  from h1 a h2 b h3 c d show ?thesis by simp
qed

text \<open>
  C6 (as amended). The columns of a node stand in the order in which the catalog entry
  lists the keys of its \<open>columns\<close> dictionary, one column for each key, with the
  name, comment, type and index found under that key; the index is stored and takes no
  part in the order. The fields of the schema record follow the columns of the node one
  for one, with the name as field path, the declared type, the comment, and
  nullability false.
\<close>

theorem columns_in_document_order:
  "(get_columns catalog_node = Inr cols \<and>
      subscript catalog_node (JStr ''columns'') = Inr (JObj raw) \<and> distinct (map fst raw) \<longrightarrow>
      list_all2 (\<lambda>kv c.
          subscript (snd kv) (JStr ''name'') = Inr (DBTColumn.name c) \<and>
          subscript (snd kv) (JStr ''comment'') = Inr (comment c) \<and>
          subscript (snd kv) (JStr ''type'') = Inr (data_type c) \<and>
          subscript (snd kv) (JStr ''index'') = Inr (index c)) raw cols)
   \<and> (get_schema_metadata ext now rep node pf = (Inr sm, rep') \<longrightarrow>
        map fieldPath (schema_fields sm) = map DBTColumn.name (columns node) \<and>
        map nativeDataType (schema_fields sm) = map data_type (columns node) \<and>
        map SchemaField.description (schema_fields sm) = map comment (columns node) \<and>
        map nullable (schema_fields sm) = replicate (length (columns node)) False)"
proof (intro conjI impI)
  assume a: "get_columns catalog_node = Inr cols \<and>
      subscript catalog_node (JStr ''columns'') = Inr (JObj raw) \<and> distinct (map fst raw)"
  then have loop: "get_columns_loop (JObj raw) (map (\<lambda>kv. JStr (fst kv)) raw) [] = Inr cols"
    by (auto simp add: get_columns_def)
  from get_columns_loop_result [OF loop]
  have "list_all2 (\<lambda>key c. \<exists>rc. subscript (JObj raw) key = Inr rc \<and>
            subscript rc (JStr ''comment'') = Inr (comment c) \<and>
            subscript rc (JStr ''type'') = Inr (data_type c) \<and>
            subscript rc (JStr ''index'') = Inr (index c) \<and>
            subscript rc (JStr ''name'') = Inr (DBTColumn.name c))
          (map (\<lambda>kv. JStr (fst kv)) raw) cols"
    by simp
  then have "list_all2 (\<lambda>kv c. \<exists>rc. subscript (JObj raw) (JStr (fst kv)) = Inr rc \<and>
            subscript rc (JStr ''comment'') = Inr (comment c) \<and>
            subscript rc (JStr ''type'') = Inr (data_type c) \<and>
            subscript rc (JStr ''index'') = Inr (index c) \<and>
            subscript rc (JStr ''name'') = Inr (DBTColumn.name c)) raw cols"
    by (simp add: list_all2_map1)
  then show "list_all2 (\<lambda>kv c.
          subscript (snd kv) (JStr ''name'') = Inr (DBTColumn.name c) \<and>
          subscript (snd kv) (JStr ''comment'') = Inr (comment c) \<and>
          subscript (snd kv) (JStr ''type'') = Inr (data_type c) \<and>
          subscript (snd kv) (JStr ''index'') = Inr (index c)) raw cols"
  proof (rule list.rel_mono_strong)
    fix kv c
    assume kv: "kv \<in> set raw"
      and rc: "\<exists>rc. subscript (JObj raw) (JStr (fst kv)) = Inr rc \<and>
            subscript rc (JStr ''comment'') = Inr (comment c) \<and>
            subscript rc (JStr ''type'') = Inr (data_type c) \<and>
            subscript rc (JStr ''index'') = Inr (index c) \<and>
            subscript rc (JStr ''name'') = Inr (DBTColumn.name c)"
    from a kv have "map_of raw (fst kv) = Some (snd kv)"
      by (cases kv) simp
    with rc show "subscript (snd kv) (JStr ''name'') = Inr (DBTColumn.name c) \<and>
          subscript (snd kv) (JStr ''comment'') = Inr (comment c) \<and>
          subscript (snd kv) (JStr ''type'') = Inr (data_type c) \<and>
          subscript (snd kv) (JStr ''index'') = Inr (index c)"
      by auto
  qed
next
  assume "get_schema_metadata ext now rep node pf = (Inr sm, rep')"
  then obtain fs where
    loop: "get_schema_metadata_loop ext (dbt_name node) (columns node) [] rep = (Inr fs, rep')"
    and sm: "schema_fields sm = fs"
    by (auto simp add: get_schema_metadata_def Let_def split: prod.splits sum.splits)
  from get_schema_metadata_loop_result [OF loop] sm
  show "map fieldPath (schema_fields sm) = map DBTColumn.name (columns node)"
    and "map nativeDataType (schema_fields sm) = map data_type (columns node)"
    and "map SchemaField.description (schema_fields sm) = map comment (columns node)"
    and "map nullable (schema_fields sm) = replicate (length (columns node)) False"
    by simp_all
qed

text \<open>
  C6 as stated fails. The catalog entry of \<open>raw_events\<close> lists the column \<open>payload\<close>,
  of index 2, before the column \<open>id\<close>, of index 1, and \<open>get_columns\<close> returns them
  so: index 2 first.
\<close>

theorem get_columns_ignores_index:
  "get_columns raw_events_catalog =
     Inr [\<lparr>DBTColumn.name = JStr ''payload'', comment = JStr '''', index = JInt 2,
            data_type = JStr ''varchar(255)''\<rparr>,
          \<lparr>DBTColumn.name = JStr ''id'', comment = JStr ''key'', index = JInt 1,
            data_type = JStr ''integer''\<rparr>]
   \<and> map index [\<lparr>DBTColumn.name = JStr ''payload'', comment = JStr '''', index = JInt 2,
                   data_type = JStr ''varchar(255)''\<rparr>,
                 \<lparr>DBTColumn.name = JStr ''id'', comment = JStr ''key'', index = JInt 1,
                   data_type = JStr ''integer''\<rparr>] = [JInt 2, JInt 1]"
  by (simp add: get_columns_def raw_events_catalog_def)

text \<open>The columns of \<open>raw_events\<close>, and the schema record of its node.\<close>

theorem columns_in_document_order_witness:
  "(get_columns raw_events_catalog = Inr (columns raw_events_node) \<and>
      subscript raw_events_catalog (JStr ''columns'') =
        Inr (JObj
         [(''payload'', JObj [(''type'', JStr ''varchar(255)''), (''index'', JInt 2),
                              (''name'', JStr ''payload''), (''comment'', JStr '''')]),
          (''id'', JObj [(''type'', JStr ''integer''), (''index'', JInt 1),
                         (''name'', JStr ''id''), (''comment'', JStr ''key'')])]) \<and>
      distinct (map fst
         [(''payload'', JObj [(''type'', JStr ''varchar(255)''), (''index'', JInt 2),
                              (''name'', JStr ''payload''), (''comment'', JStr '''')]),
          (''id'', JObj [(''type'', JStr ''integer''), (''index'', JInt 1),
                         (''name'', JStr ''id''), (''comment'', JStr ''key'')])]))
   \<and> list_all2 (\<lambda>kv c.
          subscript (snd kv) (JStr ''name'') = Inr (DBTColumn.name c) \<and>
          subscript (snd kv) (JStr ''comment'') = Inr (comment c) \<and>
          subscript (snd kv) (JStr ''type'') = Inr (data_type c) \<and>
          subscript (snd kv) (JStr ''index'') = Inr (index c))
         [(''payload'', JObj [(''type'', JStr ''varchar(255)''), (''index'', JInt 2),
                              (''name'', JStr ''payload''), (''comment'', JStr '''')]),
          (''id'', JObj [(''type'', JStr ''integer''), (''index'', JInt 1),
                         (''name'', JStr ''id''), (''comment'', JStr ''key'')])]
         (columns raw_events_node)
   \<and> (\<exists>sm r.
        get_schema_metadata scenario_ext 1700000000.75 \<lparr>warnings = [], workunit_ids = []\<rparr>
          raw_events_node ''dbt'' = (Inr sm, r) \<and>
        map fieldPath (schema_fields sm) = [JStr ''payload'', JStr ''id''])"
proof -
  let ?raw = "[(''payload'', JObj [(''type'', JStr ''varchar(255)''), (''index'', JInt 2),
                              (''name'', JStr ''payload''), (''comment'', JStr '''')]),
          (''id'', JObj [(''type'', JStr ''integer''), (''index'', JInt 1),
                         (''name'', JStr ''id''), (''comment'', JStr ''key'')])]"
  let ?run = "get_schema_metadata scenario_ext 1700000000.75 \<lparr>warnings = [], workunit_ids = []\<rparr>
           raw_events_node ''dbt''"
  have h1: "get_columns raw_events_catalog = Inr (columns raw_events_node) \<and>
      subscript raw_events_catalog (JStr ''columns'') = Inr (JObj ?raw) \<and>
      distinct (map fst ?raw)"
    by (simp add: get_columns_def raw_events_catalog_def raw_events_node_def)
  from columns_in_document_order
         [where catalog_node = raw_events_catalog and cols = "columns raw_events_node"
            and raw = ?raw] h1
  have a: "list_all2 (\<lambda>kv c.
          subscript (snd kv) (JStr ''name'') = Inr (DBTColumn.name c) \<and>
          subscript (snd kv) (JStr ''comment'') = Inr (comment c) \<and>
          subscript (snd kv) (JStr ''type'') = Inr (data_type c) \<and>
          subscript (snd kv) (JStr ''index'') = Inr (index c)) ?raw (columns raw_events_node)"
    by blast
  have "\<exists>sm r. ?run = (Inr sm, r)"
    by (simp add: raw_events_node_def scenario_ext_def emit_defs)
  then obtain sm r where h2: "?run = (Inr sm, r)" by blast
  from columns_in_document_order
         [where ext = scenario_ext and now = "1700000000.75"
            and rep = "\<lparr>warnings = [], workunit_ids = []\<rparr>" and node = raw_events_node
            and pf = "''dbt''" and sm = sm and rep' = r] h2
  have "map fieldPath (schema_fields sm) = map DBTColumn.name (columns raw_events_node)"
    by blast
  then have "map fieldPath (schema_fields sm) = [JStr ''payload'', JStr ''id'']"
    by (simp add: raw_events_node_def)
  with h2 have "?run = (Inr sm, r) \<and>
        map fieldPath (schema_fields sm) = [JStr ''payload'', JStr ''id'']"
    by (rule conjI)
  then have b: "\<exists>sm r. ?run = (Inr sm, r) \<and>
        map fieldPath (schema_fields sm) = [JStr ''payload'', JStr ''id'']"
    by (intro exI)
  show ?thesis
    apply (rule conjI)
     apply (rule h1)
    apply (rule conjI)
     apply (rule a)
    apply (rule b)
    done
qed

text \<open>
  C8. The logical name of an extracted node is the value that its manifest entry has
  under the key that the rule of the spec selects: \<open>identifier\<close> when the entry has
  that key and schema loading is off, \<open>name\<close> otherwise; the identifier of the node
  is resolved from the database, the schema and that name. Upstream resolution reads
  each dependency by the same rule.
\<close>

theorem logical_name_selection:
  "(extract_dbt_entities nodes cat lc tp ev al rp = Inr ds \<and> d \<in> set ds \<longrightarrow>
      (\<exists>entry. (dbt_name d, JObj entry) \<in> set nodes \<and>
         map_of entry (spec_logical_name_key lc entry) = Some (DBTNode.name d) \<and>
         map_of entry ''database'' = Some (database d) \<and>
         map_of entry ''schema'' = Some (schema d) \<and>
         datahub_urn d =
           get_urn_from_dbtNode (py_format rp (database d)) (py_format rp (schema d))
             (py_format rp (DBTNode.name d)) tp ev))
   \<and> (get_upstreams rp (JArr ups) nodes lc tp ev = Inr urns \<longrightarrow>
      list_all2 (\<lambda>u urn. \<exists>entry db sch nm.
          subscript (JObj nodes) u = Inr (JObj entry) \<and>
          map_of entry ''database'' = Some db \<and> map_of entry ''schema'' = Some sch \<and>
          map_of entry (spec_logical_name_key lc entry) = Some nm \<and>
          urn = get_urn_from_dbtNode (py_format rp db) (py_format rp sch) (py_format rp nm) tp ev)
        ups urns)"
proof (intro conjI impI)
  assume a: "extract_dbt_entities nodes cat lc tp ev al rp = Inr ds \<and> d \<in> set ds"
  from extract_loop_node [of al rp nodes cat lc tp ev nodes "[]" ds d] a
  obtain item where item: "item \<in> set nodes"
    and e: "extract_entry al rp nodes cat lc tp ev (fst item) (snd item) = Inr (Some d)"
    by (auto simp add: extract_dbt_entities_def)
  from extract_entry_Some [OF e] obtain rt db sch fp nm mu cols where
    db: "subscript (snd item) (JStr ''database'') = Inr db"
    and sch: "subscript (snd item) (JStr ''schema'') = Inr sch"
    and nm: "entity_name lc (snd item) = Inr nm"
    and rec: "d = \<lparr>dbt_name = fst item, database = db, schema = sch, dbt_file_path = fp,
            node_type = rt, materialization = fst mu, name = nm, columns = cols,
            upstream_urns = snd mu,
            datahub_urn = get_urn_from_dbtNode (py_format rp db) (py_format rp sch)
                            (py_format rp nm) tp ev\<rparr>"
    by blast
  from nm obtain entry where entry: "snd item = JObj entry"
    and sel: "map_of entry (spec_logical_name_key lc entry) = Some nm"
    by (auto simp add: entity_name_Inr spec_logical_name_key_def)
  from item entry have "(fst item, JObj entry) \<in> set nodes"
    by (metis prod.collapse)
  moreover from rec have "dbt_name d = fst item"
    by simp
  ultimately have "(dbt_name d, JObj entry) \<in> set nodes"
    by simp
  moreover from rec sel have "map_of entry (spec_logical_name_key lc entry) = Some (DBTNode.name d)"
    by simp
  moreover from rec db sch entry
  have "map_of entry ''database'' = Some (database d)" "map_of entry ''schema'' = Some (schema d)"
    by (simp_all split: option.splits)
  moreover from rec have "datahub_urn d =
           get_urn_from_dbtNode (py_format rp (database d)) (py_format rp (schema d))
             (py_format rp (DBTNode.name d)) tp ev"
    by simp
  ultimately show "\<exists>entry. (dbt_name d, JObj entry) \<in> set nodes \<and>
         map_of entry (spec_logical_name_key lc entry) = Some (DBTNode.name d) \<and>
         map_of entry ''database'' = Some (database d) \<and>
         map_of entry ''schema'' = Some (schema d) \<and>
         datahub_urn d =
           get_urn_from_dbtNode (py_format rp (database d)) (py_format rp (schema d))
             (py_format rp (DBTNode.name d)) tp ev"
    by blast
next
  assume "get_upstreams rp (JArr ups) nodes lc tp ev = Inr urns"
  then have "get_upstreams_loop rp ups nodes lc tp ev [] = Inr urns"
    by (simp add: get_upstreams_def)
  from get_upstreams_loop_result [OF this]
  show "list_all2 (\<lambda>u urn. \<exists>entry db sch nm.
          subscript (JObj nodes) u = Inr (JObj entry) \<and>
          map_of entry ''database'' = Some db \<and> map_of entry ''schema'' = Some sch \<and>
          map_of entry (spec_logical_name_key lc entry) = Some nm \<and>
          urn = get_urn_from_dbtNode (py_format rp db) (py_format rp sch) (py_format rp nm) tp ev)
        ups urns"
    by simp
qed

text \<open>
  The source of the scenario has both keys. Extracted with schema loading on, its name
  is the one under \<open>name\<close>; resolved as an upstream with schema loading off, its name
  is the one under \<open>identifier\<close>.
\<close>

theorem logical_name_selection_witness:
  "(extract_dbt_entities scenario_nodes scenario_catalog_nodes True ''postgres'' ''PROD''
      allow_all (\<lambda>v. ''None'') = Inr [events_node, raw_events_node]
    \<and> raw_events_node \<in> set [events_node, raw_events_node])
   \<and> (\<exists>entry. (dbt_name raw_events_node, JObj entry) \<in> set scenario_nodes \<and>
         map_of entry (spec_logical_name_key True entry) = Some (DBTNode.name raw_events_node) \<and>
         map_of entry ''database'' = Some (database raw_events_node) \<and>
         map_of entry ''schema'' = Some (schema raw_events_node) \<and>
         datahub_urn raw_events_node =
           get_urn_from_dbtNode (py_format (\<lambda>v. ''None'') (database raw_events_node))
             (py_format (\<lambda>v. ''None'') (schema raw_events_node))
             (py_format (\<lambda>v. ''None'') (DBTNode.name raw_events_node)) ''postgres'' ''PROD'')
   \<and> get_upstreams (\<lambda>v. ''None'') (JArr [JStr ''source.raw_events'']) scenario_nodes False
        ''postgres'' ''PROD''
       = Inr [''urn:li:dataset:(urn:li:dataPlatform:postgres,db.public.raw_events_v1,PROD)'']
   \<and> list_all2 (\<lambda>u urn. \<exists>entry db sch nm.
          subscript (JObj scenario_nodes) u = Inr (JObj entry) \<and>
          map_of entry ''database'' = Some db \<and> map_of entry ''schema'' = Some sch \<and>
          map_of entry (spec_logical_name_key False entry) = Some nm \<and>
          urn = get_urn_from_dbtNode (py_format (\<lambda>v. ''None'') db) (py_format (\<lambda>v. ''None'') sch)
                  (py_format (\<lambda>v. ''None'') nm) ''postgres'' ''PROD'')
        [JStr ''source.raw_events'']
        [''urn:li:dataset:(urn:li:dataPlatform:postgres,db.public.raw_events_v1,PROD)'']"
proof -
  have h1: "extract_dbt_entities scenario_nodes scenario_catalog_nodes True ''postgres'' ''PROD''
      allow_all (\<lambda>v. ''None'') = Inr [events_node, raw_events_node]
    \<and> raw_events_node \<in> set [events_node, raw_events_node]"
    by (simp add: scenario_extract)
  have h2: "get_upstreams (\<lambda>v. ''None'') (JArr [JStr ''source.raw_events'']) scenario_nodes False
        ''postgres'' ''PROD''
       = Inr [''urn:li:dataset:(urn:li:dataPlatform:postgres,db.public.raw_events_v1,PROD)'']"
    by (simp add: scenario_defs extract_defs)
  note inst = logical_name_selection
         [where nodes = scenario_nodes and cat = scenario_catalog_nodes
            and tp = "''postgres''" and ev = "''PROD''" and al = allow_all
            and rp = "\<lambda>v. ''None''" and ds = "[events_node, raw_events_node]"
            and d = raw_events_node and ups = "[JStr ''source.raw_events'']"
            and urns = "[''urn:li:dataset:(urn:li:dataPlatform:postgres,db.public.raw_events_v1,PROD)'']"]
  from inst [where lc = True] h1
  have a: "\<exists>entry. (dbt_name raw_events_node, JObj entry) \<in> set scenario_nodes \<and>
         map_of entry (spec_logical_name_key True entry) = Some (DBTNode.name raw_events_node) \<and>
         map_of entry ''database'' = Some (database raw_events_node) \<and>
         map_of entry ''schema'' = Some (schema raw_events_node) \<and>
         datahub_urn raw_events_node =
           get_urn_from_dbtNode (py_format (\<lambda>v. ''None'') (database raw_events_node))
             (py_format (\<lambda>v. ''None'') (schema raw_events_node))
             (py_format (\<lambda>v. ''None'') (DBTNode.name raw_events_node)) ''postgres'' ''PROD''"
    by (rule conjunct1 [THEN mp])
  from inst [where lc = False] h2
  have b: "list_all2 (\<lambda>u urn. \<exists>entry db sch nm.
          subscript (JObj scenario_nodes) u = Inr (JObj entry) \<and>
          map_of entry ''database'' = Some db \<and> map_of entry ''schema'' = Some sch \<and>
          map_of entry (spec_logical_name_key False entry) = Some nm \<and>
          urn = get_urn_from_dbtNode (py_format (\<lambda>v. ''None'') db) (py_format (\<lambda>v. ''None'') sch)
                  (py_format (\<lambda>v. ''None'') nm) ''postgres'' ''PROD'')
        [JStr ''source.raw_events'']
        [''urn:li:dataset:(urn:li:dataPlatform:postgres,db.public.raw_events_v1,PROD)'']"
    by (rule conjunct2 [THEN mp])
  show ?thesis
    apply (rule conjI)
     apply (rule h1)
    apply (rule conjI)
     apply (rule a)
    apply (rule conjI)
     apply (rule h2)
    apply (rule b)
    done
qed

text \<open>
  C3 (as amended). Let an entry of the merged manifest pass the filter. If its config
  has the key \<open>materialized\<close> and its \<open>depends_on.nodes\<close> list has a key that the
  merged manifest lacks, or if it needs catalog data (its config lacks the key
  \<open>materialized\<close>, or schema loading is on and its materialization is not
  \<open>ephemeral\<close>) and the merged catalog has no entry under its key, extraction
  raises: it returns no list of nodes, and the entry is not skipped. When loading raises,
  the driver yields no work unit and its run ends with that exception. The exception is
  the \<^verbatim>\<open>KeyError\<close> of the absent key whenever nothing raises before that lookup:
  the entries before this one extract, the fields of this one that are read first are
  there, and the dependencies listed before the absent one resolve. An entry that the
  filter rejects is left out before any other key of it is read, and the loop goes on
  with the next entry. Of an entry that passes the filter and whose config lacks the key
  \<open>materialized\<close>, \<open>depends_on\<close> is not read: whatever it holds, the entry extracts
  with the materialization of its catalog entry and no upstream, and the loop goes on
  with the next entry.
\<close>

theorem missing_key_aborts_extraction:
  "((key, node) \<in> set nodes \<and>
      subscript node (JStr ''resource_type'') = Inr rt \<and> al rt = Inr True \<and>
      subscript node (JStr ''config'') = Inr (JObj cfg) \<and>
      ''materialized'' \<in> set (map fst cfg) \<and>
      subscript node (JStr ''depends_on'') = Inr dep \<and>
      subscript dep (JStr ''nodes'') = Inr (JArr ups) \<and>
      JStr k \<in> set ups \<and> map_of nodes k = None \<longrightarrow>
      (\<exists>e. extract_dbt_entities nodes cat lc tp ev al rp = Inl e))
   \<and> ((key, node) \<in> set nodes \<and>
      subscript node (JStr ''resource_type'') = Inr rt \<and> al rt = Inr True \<and>
      subscript node (JStr ''config'') = Inr (JObj cfg) \<and>
      ''materialized'' \<notin> set (map fst cfg) \<and> map_of cat key = None \<longrightarrow>
      (\<exists>e. extract_dbt_entities nodes cat lc tp ev al rp = Inl e))
   \<and> ((key, node) \<in> set nodes \<and>
      subscript node (JStr ''resource_type'') = Inr rt \<and> al rt = Inr True \<and>
      subscript node (JStr ''config'') = Inr (JObj cfg) \<and>
      map_of cfg ''materialized'' = Some m \<and> m \<noteq> JStr ''ephemeral'' \<and> lc \<and>
      map_of cat key = None \<longrightarrow>
      (\<exists>e. extract_dbt_entities nodes cat lc tp ev al rp = Inl e))
   \<and> (loadManifestAndCatalog ext (manifest_path (config self)) (catalog_path (config self))
        (load_schemas (config self)) (target_platform (config self)) (env (config self))
        (node_type_pattern (config self)) = Inl e \<longrightarrow>
      get_workunits ext self = \<lparr>yielded = [], raised = Some e, final_report = report self\<rparr>)
   \<and> (nodes = pre @ (key, node) # post \<and>
      extract_loop al rp nodes cat lc tp ev pre [] = Inr acc \<and>
      subscript node (JStr ''resource_type'') = Inr rt \<and> al rt = Inr True \<and>
      subscript node (JStr ''database'') = Inr db \<and>
      subscript node (JStr ''schema'') = Inr sch \<and>
      subscript node (JStr ''original_file_path'') = Inr fp \<and>
      entity_name lc node = Inr nm \<and>
      subscript node (JStr ''config'') = Inr (JObj cfg) \<and>
      ''materialized'' \<in> set (map fst cfg) \<and>
      subscript node (JStr ''depends_on'') = Inr dep \<and>
      subscript dep (JStr ''nodes'') = Inr (JArr (earlier @ JStr k # later)) \<and>
      get_upstreams rp (JArr earlier) nodes lc tp ev = Inr us \<and> map_of nodes k = None \<longrightarrow>
      extract_dbt_entities nodes cat lc tp ev al rp = Inl (KeyError (JStr k)))
   \<and> (nodes = pre @ (key, node) # post \<and>
      extract_loop al rp nodes cat lc tp ev pre [] = Inr acc \<and>
      subscript node (JStr ''resource_type'') = Inr rt \<and> al rt = Inr True \<and>
      subscript node (JStr ''database'') = Inr db \<and>
      subscript node (JStr ''schema'') = Inr sch \<and>
      subscript node (JStr ''original_file_path'') = Inr fp \<and>
      entity_name lc node = Inr nm \<and>
      subscript node (JStr ''config'') = Inr (JObj cfg) \<and>
      ''materialized'' \<notin> set (map fst cfg) \<and> map_of cat key = None \<longrightarrow>
      extract_dbt_entities nodes cat lc tp ev al rp = Inl (KeyError (JStr key)))
   \<and> (nodes = pre @ (key, node) # post \<and>
      extract_loop al rp nodes cat lc tp ev pre [] = Inr acc \<and>
      subscript node (JStr ''resource_type'') = Inr rt \<and> al rt = Inr True \<and>
      subscript node (JStr ''database'') = Inr db \<and>
      subscript node (JStr ''schema'') = Inr sch \<and>
      subscript node (JStr ''original_file_path'') = Inr fp \<and>
      entity_name lc node = Inr nm \<and>
      subscript node (JStr ''config'') = Inr (JObj cfg) \<and>
      map_of cfg ''materialized'' = Some m \<and> m \<noteq> JStr ''ephemeral'' \<and> lc \<and>
      subscript node (JStr ''depends_on'') = Inr dep \<and>
      subscript dep (JStr ''nodes'') = Inr deps \<and>
      get_upstreams rp deps nodes lc tp ev = Inr us \<and> map_of cat key = None \<longrightarrow>
      extract_dbt_entities nodes cat lc tp ev al rp = Inl (KeyError (JStr key)))
   \<and> (subscript node (JStr ''resource_type'') = Inr rt \<and> al rt = Inr False \<longrightarrow>
      extract_entry al rp nodes cat lc tp ev key node = Inr None
      \<and> extract_loop al rp nodes cat lc tp ev ((key, node) # post) acc
          = extract_loop al rp nodes cat lc tp ev post acc)
   \<and> (subscript node (JStr ''resource_type'') = Inr rt \<and> al rt = Inr True \<and>
      subscript node (JStr ''database'') = Inr db \<and>
      subscript node (JStr ''schema'') = Inr sch \<and>
      subscript node (JStr ''original_file_path'') = Inr fp \<and>
      entity_name lc node = Inr nm \<and>
      subscript node (JStr ''config'') = Inr (JObj cfg) \<and>
      ''materialized'' \<notin> set (map fst cfg) \<and>
      map_of cat key = Some centry \<and>
      subscript centry (JStr ''metadata'') = Inr md \<and>
      subscript md (JStr ''type'') = Inr t \<and>
      entity_columns cat lc key t = Inr cols \<longrightarrow>
      extract_entry al rp nodes cat lc tp ev key node =
        Inr (Some \<lparr>dbt_name = key, database = db, schema = sch, dbt_file_path = fp,
                    node_type = rt, materialization = t, name = nm, columns = cols,
                    upstream_urns = [],
                    datahub_urn =
                      get_urn_from_dbtNode (py_format rp db) (py_format rp sch)
                        (py_format rp nm) tp ev\<rparr>)
      \<and> extract_loop al rp nodes cat lc tp ev ((key, node) # post) acc
          = extract_loop al rp nodes cat lc tp ev post
              (acc @ [\<lparr>dbt_name = key, database = db, schema = sch, dbt_file_path = fp,
                        node_type = rt, materialization = t, name = nm, columns = cols,
                        upstream_urns = [],
                        datahub_urn =
                          get_urn_from_dbtNode (py_format rp db) (py_format rp sch)
                            (py_format rp nm) tp ev\<rparr>]))"
proof (intro conjI impI; (elim conjE)?)
  assume mem: "(key, node) \<in> set nodes"
    and f: "subscript node (JStr ''resource_type'') = Inr rt" "al rt = Inr True"
      "subscript node (JStr ''config'') = Inr (JObj cfg)"
      "''materialized'' \<in> set (map fst cfg)"
      "subscript node (JStr ''depends_on'') = Inr dep"
      "subscript dep (JStr ''nodes'') = Inr (JArr ups)"
      "JStr k \<in> set ups" "map_of nodes k = None"
  from f have "\<exists>e. extract_entry al rp nodes cat lc tp ev key node = Inl e"
    by (rule extract_entry_dangling)
  then obtain e where "extract_entry al rp nodes cat lc tp ev (fst (key, node)) (snd (key, node)) = Inl e"
    by auto
  from extract_loop_fails [OF mem this]
  show "\<exists>e. extract_dbt_entities nodes cat lc tp ev al rp = Inl e"
    by (simp add: extract_dbt_entities_def)
next
  assume mem: "(key, node) \<in> set nodes"
    and rt: "subscript node (JStr ''resource_type'') = Inr rt" and al: "al rt = Inr True"
    and cfg: "subscript node (JStr ''config'') = Inr (JObj cfg)"
    and no: "''materialized'' \<notin> set (map fst cfg)" and cat: "map_of cat key = None"
  have "\<exists>e. extract_entry al rp nodes cat lc tp ev key node = Inl e"
  proof (rule extract_entry_no_catalog [where al = al and rt = rt, OF rt al cat])
    fix cfg' m'
    assume "subscript node (JStr ''config'') = Inr (JObj cfg')"
      and "map_of cfg' ''materialized'' = Some m'"
    with cfg have "map_of cfg ''materialized'' = Some m'"
      by simp
    then have "(''materialized'', m') \<in> set cfg"
      by (rule map_of_SomeD)
    then have "''materialized'' \<in> set (map fst cfg)"
      by force
    with no show "lc \<and> m' \<noteq> JStr ''ephemeral''"
      by simp
  qed
  then obtain e where "extract_entry al rp nodes cat lc tp ev (fst (key, node)) (snd (key, node)) = Inl e"
    by auto
  from extract_loop_fails [OF mem this]
  show "\<exists>e. extract_dbt_entities nodes cat lc tp ev al rp = Inl e"
    by (simp add: extract_dbt_entities_def)
next
  assume mem: "(key, node) \<in> set nodes"
    and rt: "subscript node (JStr ''resource_type'') = Inr rt" and al: "al rt = Inr True"
    and cfg: "subscript node (JStr ''config'') = Inr (JObj cfg)"
    and m: "map_of cfg ''materialized'' = Some m" "m \<noteq> JStr ''ephemeral''" "lc"
    and cat: "map_of cat key = None"
  have "\<exists>e. extract_entry al rp nodes cat lc tp ev key node = Inl e"
  proof (rule extract_entry_no_catalog [where al = al and rt = rt, OF rt al cat])
    fix cfg' m'
    assume "subscript node (JStr ''config'') = Inr (JObj cfg')"
      and "map_of cfg' ''materialized'' = Some m'"
    with cfg m show "lc \<and> m' \<noteq> JStr ''ephemeral''"
      by auto
  qed
  then obtain e where "extract_entry al rp nodes cat lc tp ev (fst (key, node)) (snd (key, node)) = Inl e"
    by auto
  from extract_loop_fails [OF mem this]
  show "\<exists>e. extract_dbt_entities nodes cat lc tp ev al rp = Inl e"
    by (simp add: extract_dbt_entities_def)
next
  assume "loadManifestAndCatalog ext (manifest_path (config self)) (catalog_path (config self))
        (load_schemas (config self)) (target_platform (config self)) (env (config self))
        (node_type_pattern (config self)) = Inl e"
  then show "get_workunits ext self = \<lparr>yielded = [], raised = Some e, final_report = report self\<rparr>"
    by (simp add: get_workunits_def)
next
  assume nodes: "nodes = pre @ (key, node) # post"
    and pre: "extract_loop al rp nodes cat lc tp ev pre [] = Inr acc"
    and f: "subscript node (JStr ''resource_type'') = Inr rt" "al rt = Inr True"
      "subscript node (JStr ''database'') = Inr db"
      "subscript node (JStr ''schema'') = Inr sch"
      "subscript node (JStr ''original_file_path'') = Inr fp"
      "entity_name lc node = Inr nm"
    and g: "subscript node (JStr ''config'') = Inr (JObj cfg)"
      "''materialized'' \<in> set (map fst cfg)"
      "subscript node (JStr ''depends_on'') = Inr dep"
      "subscript dep (JStr ''nodes'') = Inr (JArr (earlier @ JStr k # later))"
      "get_upstreams rp (JArr earlier) nodes lc tp ev = Inr us" "map_of nodes k = None"
  have "entity_materialization rp nodes cat lc tp ev key node = Inl (KeyError (JStr k))"
    using g by (rule entity_materialization_first_missing)
  then have "extract_entry al rp nodes cat lc tp ev key node = Inl (KeyError (JStr k))"
    by (simp add: extract_entry_at_materialization [where al = al, OF f])
  from extract_first_failure [OF nodes pre this]
  show "extract_dbt_entities nodes cat lc tp ev al rp = Inl (KeyError (JStr k))" .
next
  assume nodes: "nodes = pre @ (key, node) # post"
    and pre: "extract_loop al rp nodes cat lc tp ev pre [] = Inr acc"
    and f: "subscript node (JStr ''resource_type'') = Inr rt" "al rt = Inr True"
      "subscript node (JStr ''database'') = Inr db"
      "subscript node (JStr ''schema'') = Inr sch"
      "subscript node (JStr ''original_file_path'') = Inr fp"
      "entity_name lc node = Inr nm"
    and g: "subscript node (JStr ''config'') = Inr (JObj cfg)"
      "''materialized'' \<notin> set (map fst cfg)" "map_of cat key = None"
  have "entity_materialization rp nodes cat lc tp ev key node = Inl (KeyError (JStr key))"
    using g by (rule entity_materialization_no_catalog)
  then have "extract_entry al rp nodes cat lc tp ev key node = Inl (KeyError (JStr key))"
    by (simp add: extract_entry_at_materialization [where al = al, OF f])
  from extract_first_failure [OF nodes pre this]
  show "extract_dbt_entities nodes cat lc tp ev al rp = Inl (KeyError (JStr key))" .
next
  assume nodes: "nodes = pre @ (key, node) # post"
    and pre: "extract_loop al rp nodes cat lc tp ev pre [] = Inr acc"
    and f: "subscript node (JStr ''resource_type'') = Inr rt" "al rt = Inr True"
      "subscript node (JStr ''database'') = Inr db"
      "subscript node (JStr ''schema'') = Inr sch"
      "subscript node (JStr ''original_file_path'') = Inr fp"
      "entity_name lc node = Inr nm"
    and cfg: "subscript node (JStr ''config'') = Inr (JObj cfg)"
    and m: "map_of cfg ''materialized'' = Some m"
    and ne: "m \<noteq> JStr ''ephemeral''" and lc: "lc"
    and d: "subscript node (JStr ''depends_on'') = Inr dep"
      "subscript dep (JStr ''nodes'') = Inr deps"
      "get_upstreams rp deps nodes lc tp ev = Inr us"
    and cat: "map_of cat key = None"
  have mat: "entity_materialization rp nodes cat lc tp ev key node = Inr (m, us)"
    using cfg m d by (rule entity_materialization_model_ok)
  have "extract_entry al rp nodes cat lc tp ev key node = Inl (KeyError (JStr key))"
    unfolding extract_entry_at_materialization [where al = al, OF f] mat
    using ne lc cat by (simp add: entity_columns_def)
  from extract_first_failure [OF nodes pre this]
  show "extract_dbt_entities nodes cat lc tp ev al rp = Inl (KeyError (JStr key))" .
next
  assume "subscript node (JStr ''resource_type'') = Inr rt" and "al rt = Inr False"
  then show "extract_entry al rp nodes cat lc tp ev key node = Inr None"
    by (simp add: extract_entry_def)
next
  assume "subscript node (JStr ''resource_type'') = Inr rt" and "al rt = Inr False"
  then show "extract_loop al rp nodes cat lc tp ev ((key, node) # post) acc
          = extract_loop al rp nodes cat lc tp ev post acc"
    by (simp add: extract_entry_def)
next
  assume f: "subscript node (JStr ''resource_type'') = Inr rt" "al rt = Inr True"
      "subscript node (JStr ''database'') = Inr db"
      "subscript node (JStr ''schema'') = Inr sch"
      "subscript node (JStr ''original_file_path'') = Inr fp"
      "entity_name lc node = Inr nm"
    and g: "subscript node (JStr ''config'') = Inr (JObj cfg)"
      "''materialized'' \<notin> set (map fst cfg)"
      "map_of cat key = Some centry"
      "subscript centry (JStr ''metadata'') = Inr md"
      "subscript md (JStr ''type'') = Inr t"
    and c: "entity_columns cat lc key t = Inr cols"
  from g have mat: "entity_materialization rp nodes cat lc tp ev key node = Inr (t, [])"
    by (simp add: entity_materialization_def)
  show "extract_entry al rp nodes cat lc tp ev key node =
        Inr (Some \<lparr>dbt_name = key, database = db, schema = sch, dbt_file_path = fp,
                    node_type = rt, materialization = t, name = nm, columns = cols,
                    upstream_urns = [],
                    datahub_urn =
                      get_urn_from_dbtNode (py_format rp db) (py_format rp sch)
                        (py_format rp nm) tp ev\<rparr>)"
    unfolding extract_entry_at_materialization [where al = al, OF f] mat
    using c by simp
next
  assume f: "subscript node (JStr ''resource_type'') = Inr rt" "al rt = Inr True"
      "subscript node (JStr ''database'') = Inr db"
      "subscript node (JStr ''schema'') = Inr sch"
      "subscript node (JStr ''original_file_path'') = Inr fp"
      "entity_name lc node = Inr nm"
    and g: "subscript node (JStr ''config'') = Inr (JObj cfg)"
      "''materialized'' \<notin> set (map fst cfg)"
      "map_of cat key = Some centry"
      "subscript centry (JStr ''metadata'') = Inr md"
      "subscript md (JStr ''type'') = Inr t"
    and c: "entity_columns cat lc key t = Inr cols"
  from g have mat: "entity_materialization rp nodes cat lc tp ev key node = Inr (t, [])"
    by (simp add: entity_materialization_def)
  have "extract_entry al rp nodes cat lc tp ev key node =
        Inr (Some \<lparr>dbt_name = key, database = db, schema = sch, dbt_file_path = fp,
                    node_type = rt, materialization = t, name = nm, columns = cols,
                    upstream_urns = [],
                    datahub_urn =
                      get_urn_from_dbtNode (py_format rp db) (py_format rp sch)
                        (py_format rp nm) tp ev\<rparr>)"
    unfolding extract_entry_at_materialization [where al = al, OF f] mat
    using c by simp
  then show "extract_loop al rp nodes cat lc tp ev ((key, node) # post) acc
          = extract_loop al rp nodes cat lc tp ev post
              (acc @ [\<lparr>dbt_name = key, database = db, schema = sch, dbt_file_path = fp,
                        node_type = rt, materialization = t, name = nm, columns = cols,
                        upstream_urns = [],
                        datahub_urn =
                          get_urn_from_dbtNode (py_format rp db) (py_format rp sch)
                            (py_format rp nm) tp ev\<rparr>])"
    by simp
qed

text \<open>
  C3 as stated fails. A test entry whose dependency is absent is left out by a filter
  that denies tests, and a source entry with an absent dependency is extracted, since
  the dependencies of an entry without \<open>materialized\<close> are not read: neither run
  raises.
\<close>

theorem absent_dependency_not_read:
  "map_of [(''test.t'', dangling_test)] ''model.ghost'' = None
   \<and> extract_dbt_entities [(''test.t'', dangling_test)] [] False ''postgres'' ''PROD''
        deny_tests (\<lambda>v. ''None'') = Inr []
   \<and> map_of [(''source.raw_events'', dangling_source)] ''model.ghost'' = None
   \<and> extract_dbt_entities [(''source.raw_events'', dangling_source)]
        [(''source.raw_events'', raw_events_catalog)] False ''postgres'' ''PROD''
        allow_all (\<lambda>v. ''None'') =
      Inr [\<lparr>dbt_name = ''source.raw_events'', database = JStr ''db'', schema = JStr ''public'',
             dbt_file_path = JStr ''models/sources.yml'', node_type = JStr ''source'',
             materialization = JStr ''BASE TABLE'', name = JStr ''raw_events'', columns = [],
             upstream_urns = [],
             datahub_urn =
               ''urn:li:dataset:(urn:li:dataPlatform:postgres,db.public.raw_events,PROD)''\<rparr>]"
  by (simp add: dangling_test_def dangling_source_def raw_events_catalog_def extract_defs)

text \<open>
  Four runs: the model that depends on \<open>model.ghost\<close>; the source of the scenario
  with an empty catalog; the model of the scenario, with schema loading on, with a
  catalog that has the source only; and the driver on the manifest with the absent
  dependency, which yields nothing. Then two entries whose absent dependency is not
  read: the test that the filter rejects, and the source without \<open>materialized\<close>.
\<close>

theorem missing_key_aborts_extraction_witness:
  "((''model.events'', dangling_model) \<in> set dangling_nodes \<and>
      subscript dangling_model (JStr ''resource_type'') = Inr (JStr ''model'') \<and>
      allow_all (JStr ''model'') = Inr True \<and>
      subscript dangling_model (JStr ''config'') = Inr (JObj [(''materialized'', JStr ''table'')]) \<and>
      ''materialized'' \<in> set (map fst [(''materialized'', JStr ''table'')]) \<and>
      subscript dangling_model (JStr ''depends_on'') =
        Inr (JObj [(''nodes'', JArr [JStr ''source.raw_events'', JStr ''model.ghost''])]) \<and>
      subscript (JObj [(''nodes'', JArr [JStr ''source.raw_events'', JStr ''model.ghost''])])
        (JStr ''nodes'') = Inr (JArr [JStr ''source.raw_events'', JStr ''model.ghost'']) \<and>
      JStr ''model.ghost'' \<in> set [JStr ''source.raw_events'', JStr ''model.ghost''] \<and>
      map_of dangling_nodes ''model.ghost'' = None)
   \<and> (\<exists>e. extract_dbt_entities dangling_nodes scenario_catalog_nodes True ''postgres'' ''PROD''
             allow_all (\<lambda>v. ''None'') = Inl e)
   \<and> ((''source.raw_events'', raw_events) \<in> set [(''source.raw_events'', raw_events)] \<and>
      subscript raw_events (JStr ''resource_type'') = Inr (JStr ''source'') \<and>
      allow_all (JStr ''source'') = Inr True \<and>
      subscript raw_events (JStr ''config'') = Inr (JObj [(''enabled'', JBool True)]) \<and>
      ''materialized'' \<notin> set (map fst [(''enabled'', JBool True)]) \<and>
      map_of [] ''source.raw_events'' = (None :: json option))
   \<and> (\<exists>e. extract_dbt_entities [(''source.raw_events'', raw_events)] [] True ''postgres'' ''PROD''
             allow_all (\<lambda>v. ''None'') = Inl e)
   \<and> ((''model.events'', events_model) \<in> set scenario_nodes \<and>
      subscript events_model (JStr ''resource_type'') = Inr (JStr ''model'') \<and>
      allow_all (JStr ''model'') = Inr True \<and>
      subscript events_model (JStr ''config'') = Inr (JObj [(''materialized'', JStr ''table'')]) \<and>
      map_of [(''materialized'', JStr ''table'')] ''materialized'' = Some (JStr ''table'') \<and>
      JStr ''table'' \<noteq> JStr ''ephemeral'' \<and> True \<and>
      map_of [(''source.raw_events'', raw_events_catalog)] ''model.events'' = None)
   \<and> (\<exists>e. extract_dbt_entities scenario_nodes [(''source.raw_events'', raw_events_catalog)] True
             ''postgres'' ''PROD'' allow_all (\<lambda>v. ''None'') = Inl e)
   \<and> loadManifestAndCatalog dangling_ext
        (manifest_path (config (scenario_source True)))
        (catalog_path (config (scenario_source True)))
        (load_schemas (config (scenario_source True)))
        (target_platform (config (scenario_source True)))
        (env (config (scenario_source True)))
        (node_type_pattern (config (scenario_source True))) = Inl (KeyError (JStr ''model.ghost''))
   \<and> get_workunits dangling_ext (scenario_source True) =
        \<lparr>yielded = [], raised = Some (KeyError (JStr ''model.ghost'')),
         final_report = report (scenario_source True)\<rparr>
   \<and> (dangling_nodes = [] @ (''model.events'', dangling_model) # [(''source.raw_events'', raw_events)] \<and>
      extract_loop allow_all (\<lambda>v. ''None'') dangling_nodes scenario_catalog_nodes True ''postgres''
        ''PROD'' [] [] = Inr [] \<and>
      subscript dangling_model (JStr ''resource_type'') = Inr (JStr ''model'') \<and>
      allow_all (JStr ''model'') = Inr True \<and>
      subscript dangling_model (JStr ''database'') = Inr (JStr ''db'') \<and>
      subscript dangling_model (JStr ''schema'') = Inr (JStr ''public'') \<and>
      subscript dangling_model (JStr ''original_file_path'') = Inr (JStr ''models/events.sql'') \<and>
      entity_name True dangling_model = Inr (JStr ''events'') \<and>
      subscript dangling_model (JStr ''config'') = Inr (JObj [(''materialized'', JStr ''table'')]) \<and>
      ''materialized'' \<in> set (map fst [(''materialized'', JStr ''table'')]) \<and>
      subscript dangling_model (JStr ''depends_on'') =
        Inr (JObj [(''nodes'', JArr [JStr ''source.raw_events'', JStr ''model.ghost''])]) \<and>
      subscript (JObj [(''nodes'', JArr [JStr ''source.raw_events'', JStr ''model.ghost''])])
        (JStr ''nodes'') = Inr (JArr ([JStr ''source.raw_events''] @ JStr ''model.ghost'' # [])) \<and>
      get_upstreams (\<lambda>v. ''None'') (JArr [JStr ''source.raw_events'']) dangling_nodes True
        ''postgres'' ''PROD''
        = Inr [''urn:li:dataset:(urn:li:dataPlatform:postgres,db.public.raw_events,PROD)''] \<and>
      map_of dangling_nodes ''model.ghost'' = None)
   \<and> extract_dbt_entities dangling_nodes scenario_catalog_nodes True ''postgres'' ''PROD''
        allow_all (\<lambda>v. ''None'') = Inl (KeyError (JStr ''model.ghost''))
   \<and> ([(''source.raw_events'', raw_events)] = [] @ (''source.raw_events'', raw_events) # [] \<and>
      extract_loop allow_all (\<lambda>v. ''None'') [(''source.raw_events'', raw_events)] [] True
        ''postgres'' ''PROD'' [] [] = Inr [] \<and>
      subscript raw_events (JStr ''resource_type'') = Inr (JStr ''source'') \<and>
      allow_all (JStr ''source'') = Inr True \<and>
      subscript raw_events (JStr ''database'') = Inr (JStr ''db'') \<and>
      subscript raw_events (JStr ''schema'') = Inr (JStr ''public'') \<and>
      subscript raw_events (JStr ''original_file_path'') = Inr (JStr ''models/sources.yml'') \<and>
      entity_name True raw_events = Inr (JStr ''raw_events'') \<and>
      subscript raw_events (JStr ''config'') = Inr (JObj [(''enabled'', JBool True)]) \<and>
      ''materialized'' \<notin> set (map fst [(''enabled'', JBool True)]) \<and>
      map_of [] ''source.raw_events'' = (None :: json option))
   \<and> extract_dbt_entities [(''source.raw_events'', raw_events)] [] True ''postgres'' ''PROD''
        allow_all (\<lambda>v. ''None'') = Inl (KeyError (JStr ''source.raw_events''))
   \<and> (scenario_nodes = [] @ (''model.events'', events_model) # [(''source.raw_events'', raw_events)] \<and>
      extract_loop allow_all (\<lambda>v. ''None'') scenario_nodes
        [(''source.raw_events'', raw_events_catalog)] True ''postgres'' ''PROD'' [] [] = Inr [] \<and>
      subscript events_model (JStr ''resource_type'') = Inr (JStr ''model'') \<and>
      allow_all (JStr ''model'') = Inr True \<and>
      subscript events_model (JStr ''database'') = Inr (JStr ''db'') \<and>
      subscript events_model (JStr ''schema'') = Inr (JStr ''public'') \<and>
      subscript events_model (JStr ''original_file_path'') = Inr (JStr ''models/events.sql'') \<and>
      entity_name True events_model = Inr (JStr ''events'') \<and>
      subscript events_model (JStr ''config'') = Inr (JObj [(''materialized'', JStr ''table'')]) \<and>
      map_of [(''materialized'', JStr ''table'')] ''materialized'' = Some (JStr ''table'') \<and>
      JStr ''table'' \<noteq> JStr ''ephemeral'' \<and> True \<and>
      subscript events_model (JStr ''depends_on'') =
        Inr (JObj [(''nodes'', JArr [JStr ''source.raw_events''])]) \<and>
      subscript (JObj [(''nodes'', JArr [JStr ''source.raw_events''])]) (JStr ''nodes'')
        = Inr (JArr [JStr ''source.raw_events'']) \<and>
      get_upstreams (\<lambda>v. ''None'') (JArr [JStr ''source.raw_events'']) scenario_nodes True
        ''postgres'' ''PROD''
        = Inr [''urn:li:dataset:(urn:li:dataPlatform:postgres,db.public.raw_events,PROD)''] \<and>
      map_of [(''source.raw_events'', raw_events_catalog)] ''model.events'' = None)
   \<and> extract_dbt_entities scenario_nodes [(''source.raw_events'', raw_events_catalog)] True
        ''postgres'' ''PROD'' allow_all (\<lambda>v. ''None'') = Inl (KeyError (JStr ''model.events''))
   \<and> (subscript dangling_test (JStr ''resource_type'') = Inr (JStr ''test'') \<and>
      deny_tests (JStr ''test'') = Inr False)
   \<and> (extract_entry deny_tests (\<lambda>v. ''None'') [(''test.t'', dangling_test)] [] False
        ''postgres'' ''PROD'' ''test.t'' dangling_test = Inr None
      \<and> extract_loop deny_tests (\<lambda>v. ''None'') [(''test.t'', dangling_test)] [] False
          ''postgres'' ''PROD'' ((''test.t'', dangling_test) # []) []
          = extract_loop deny_tests (\<lambda>v. ''None'') [(''test.t'', dangling_test)] [] False
              ''postgres'' ''PROD'' [] [])
   \<and> (subscript dangling_source (JStr ''resource_type'') = Inr (JStr ''source'') \<and>
      allow_all (JStr ''source'') = Inr True \<and>
      subscript dangling_source (JStr ''database'') = Inr (JStr ''db'') \<and>
      subscript dangling_source (JStr ''schema'') = Inr (JStr ''public'') \<and>
      subscript dangling_source (JStr ''original_file_path'') = Inr (JStr ''models/sources.yml'') \<and>
      entity_name False dangling_source = Inr (JStr ''raw_events'') \<and>
      subscript dangling_source (JStr ''config'') = Inr (JObj [(''enabled'', JBool True)]) \<and>
      ''materialized'' \<notin> set (map fst [(''enabled'', JBool True)]) \<and>
      map_of [(''source.raw_events'', raw_events_catalog)] ''source.raw_events''
        = Some raw_events_catalog \<and>
      subscript raw_events_catalog (JStr ''metadata'') = Inr (JObj [(''type'', JStr ''BASE TABLE'')]) \<and>
      subscript (JObj [(''type'', JStr ''BASE TABLE'')]) (JStr ''type'') = Inr (JStr ''BASE TABLE'') \<and>
      entity_columns [(''source.raw_events'', raw_events_catalog)] False ''source.raw_events''
        (JStr ''BASE TABLE'') = Inr [])
   \<and> (extract_entry allow_all (\<lambda>v. ''None'') [(''source.raw_events'', dangling_source)]
        [(''source.raw_events'', raw_events_catalog)] False ''postgres'' ''PROD''
        ''source.raw_events'' dangling_source =
        Inr (Some \<lparr>dbt_name = ''source.raw_events'', database = JStr ''db'',
                    schema = JStr ''public'', dbt_file_path = JStr ''models/sources.yml'',
                    node_type = JStr ''source'', materialization = JStr ''BASE TABLE'',
                    name = JStr ''raw_events'', columns = [], upstream_urns = [],
                    datahub_urn =
                      get_urn_from_dbtNode (py_format (\<lambda>v. ''None'') (JStr ''db''))
                        (py_format (\<lambda>v. ''None'') (JStr ''public''))
                        (py_format (\<lambda>v. ''None'') (JStr ''raw_events'')) ''postgres'' ''PROD''\<rparr>)
      \<and> extract_loop allow_all (\<lambda>v. ''None'') [(''source.raw_events'', dangling_source)]
          [(''source.raw_events'', raw_events_catalog)] False ''postgres'' ''PROD''
          ((''source.raw_events'', dangling_source) # []) []
          = extract_loop allow_all (\<lambda>v. ''None'') [(''source.raw_events'', dangling_source)]
              [(''source.raw_events'', raw_events_catalog)] False ''postgres'' ''PROD'' []
              ([] @ [\<lparr>dbt_name = ''source.raw_events'', database = JStr ''db'',
                       schema = JStr ''public'', dbt_file_path = JStr ''models/sources.yml'',
                       node_type = JStr ''source'', materialization = JStr ''BASE TABLE'',
                       name = JStr ''raw_events'', columns = [], upstream_urns = [],
                       datahub_urn =
                         get_urn_from_dbtNode (py_format (\<lambda>v. ''None'') (JStr ''db''))
                           (py_format (\<lambda>v. ''None'') (JStr ''public''))
                           (py_format (\<lambda>v. ''None'') (JStr ''raw_events'')) ''postgres''
                           ''PROD''\<rparr>]))"
proof -
  note defs = dangling_nodes_def dangling_model_def scenario_nodes_def raw_events_def
    events_model_def entity_name_def get_upstreams_def get_urn_from_dbtNode_def py_format_def
    Let_def
  note rejected = missing_key_aborts_extraction
    [where nodes = "[(''test.t'', dangling_test)]" and cat = "[]" and lc = False
       and tp = "''postgres''" and ev = "''PROD''" and al = deny_tests and rp = "\<lambda>v. ''None''"
       and key = "''test.t''" and node = dangling_test and rt = "JStr ''test''"
       and post = "[]" and acc = "[]"]
  note unread = missing_key_aborts_extraction
    [where nodes = "[(''source.raw_events'', dangling_source)]"
       and cat = "[(''source.raw_events'', raw_events_catalog)]" and lc = False
       and tp = "''postgres''" and ev = "''PROD''" and al = allow_all and rp = "\<lambda>v. ''None''"
       and key = "''source.raw_events''" and node = dangling_source and rt = "JStr ''source''"
       and cfg = "[(''enabled'', JBool True)]"
       and post = "[]" and acc = "[]"
       and db = "JStr ''db''" and sch = "JStr ''public''" and fp = "JStr ''models/sources.yml''"
       and nm = "JStr ''raw_events''" and centry = raw_events_catalog
       and md = "JObj [(''type'', JStr ''BASE TABLE'')]" and t = "JStr ''BASE TABLE''"
       and cols = "[]"]
  have h8: "subscript dangling_test (JStr ''resource_type'') = Inr (JStr ''test'') \<and>
      deny_tests (JStr ''test'') = Inr False"
    by (simp add: dangling_test_def)
  have h9: "subscript dangling_source (JStr ''resource_type'') = Inr (JStr ''source'') \<and>
      allow_all (JStr ''source'') = Inr True \<and>
      subscript dangling_source (JStr ''database'') = Inr (JStr ''db'') \<and>
      subscript dangling_source (JStr ''schema'') = Inr (JStr ''public'') \<and>
      subscript dangling_source (JStr ''original_file_path'') = Inr (JStr ''models/sources.yml'') \<and>
      entity_name False dangling_source = Inr (JStr ''raw_events'') \<and>
      subscript dangling_source (JStr ''config'') = Inr (JObj [(''enabled'', JBool True)]) \<and>
      ''materialized'' \<notin> set (map fst [(''enabled'', JBool True)]) \<and>
      map_of [(''source.raw_events'', raw_events_catalog)] ''source.raw_events''
        = Some raw_events_catalog \<and>
      subscript raw_events_catalog (JStr ''metadata'') = Inr (JObj [(''type'', JStr ''BASE TABLE'')]) \<and>
      subscript (JObj [(''type'', JStr ''BASE TABLE'')]) (JStr ''type'') = Inr (JStr ''BASE TABLE'') \<and>
      entity_columns [(''source.raw_events'', raw_events_catalog)] False ''source.raw_events''
        (JStr ''BASE TABLE'') = Inr []"
    by (simp add: dangling_source_def raw_events_catalog_def entity_name_def entity_columns_def)
  note dangling = missing_key_aborts_extraction
    [where nodes = dangling_nodes and cat = scenario_catalog_nodes and lc = True
       and tp = "''postgres''" and ev = "''PROD''" and al = allow_all and rp = "\<lambda>v. ''None''"
       and key = "''model.events''" and node = dangling_model and rt = "JStr ''model''"
       and cfg = "[(''materialized'', JStr ''table'')]"
       and dep = "JObj [(''nodes'', JArr [JStr ''source.raw_events'', JStr ''model.ghost''])]"
       and ups = "[JStr ''source.raw_events'', JStr ''model.ghost'']" and k = "''model.ghost''"
       and pre = "[]" and post = "[(''source.raw_events'', raw_events)]" and acc = "[]"
       and db = "JStr ''db''" and sch = "JStr ''public''" and fp = "JStr ''models/events.sql''"
       and nm = "JStr ''events''" and earlier = "[JStr ''source.raw_events'']" and later = "[]"
       and us = "[''urn:li:dataset:(urn:li:dataPlatform:postgres,db.public.raw_events,PROD)'']"]
  note source = missing_key_aborts_extraction
    [where nodes = "[(''source.raw_events'', raw_events)]" and cat = "[]" and lc = True
       and tp = "''postgres''" and ev = "''PROD''" and al = allow_all and rp = "\<lambda>v. ''None''"
       and key = "''source.raw_events''" and node = raw_events and rt = "JStr ''source''"
       and cfg = "[(''enabled'', JBool True)]"
       and pre = "[]" and post = "[]" and acc = "[]"
       and db = "JStr ''db''" and sch = "JStr ''public''" and fp = "JStr ''models/sources.yml''"
       and nm = "JStr ''raw_events''"]
  note model = missing_key_aborts_extraction
    [where nodes = scenario_nodes and cat = "[(''source.raw_events'', raw_events_catalog)]"
       and lc = True
       and tp = "''postgres''" and ev = "''PROD''" and al = allow_all and rp = "\<lambda>v. ''None''"
       and key = "''model.events''" and node = events_model and rt = "JStr ''model''"
       and cfg = "[(''materialized'', JStr ''table'')]" and m = "JStr ''table''"
       and dep = "JObj [(''nodes'', JArr [JStr ''source.raw_events''])]"
       and deps = "JArr [JStr ''source.raw_events'']"
       and pre = "[]" and post = "[(''source.raw_events'', raw_events)]" and acc = "[]"
       and db = "JStr ''db''" and sch = "JStr ''public''" and fp = "JStr ''models/events.sql''"
       and nm = "JStr ''events''"
       and us = "[''urn:li:dataset:(urn:li:dataPlatform:postgres,db.public.raw_events,PROD)'']"]
  note driver = missing_key_aborts_extraction
    [where ext = dangling_ext and self = "scenario_source True"
       and e = "KeyError (JStr ''model.ghost'')"]
  have h1: "(''model.events'', dangling_model) \<in> set dangling_nodes \<and>
      subscript dangling_model (JStr ''resource_type'') = Inr (JStr ''model'') \<and>
      allow_all (JStr ''model'') = Inr True \<and>
      subscript dangling_model (JStr ''config'') = Inr (JObj [(''materialized'', JStr ''table'')]) \<and>
      ''materialized'' \<in> set (map fst [(''materialized'', JStr ''table'')]) \<and>
      subscript dangling_model (JStr ''depends_on'') =
        Inr (JObj [(''nodes'', JArr [JStr ''source.raw_events'', JStr ''model.ghost''])]) \<and>
      subscript (JObj [(''nodes'', JArr [JStr ''source.raw_events'', JStr ''model.ghost''])])
        (JStr ''nodes'') = Inr (JArr [JStr ''source.raw_events'', JStr ''model.ghost'']) \<and>
      JStr ''model.ghost'' \<in> set [JStr ''source.raw_events'', JStr ''model.ghost''] \<and>
      map_of dangling_nodes ''model.ghost'' = None"
    by (simp add: defs)
  have h2: "(''source.raw_events'', raw_events) \<in> set [(''source.raw_events'', raw_events)] \<and>
      subscript raw_events (JStr ''resource_type'') = Inr (JStr ''source'') \<and>
      allow_all (JStr ''source'') = Inr True \<and>
      subscript raw_events (JStr ''config'') = Inr (JObj [(''enabled'', JBool True)]) \<and>
      ''materialized'' \<notin> set (map fst [(''enabled'', JBool True)]) \<and>
      map_of [] ''source.raw_events'' = (None :: json option)"
    by (simp add: defs)
  have h3: "(''model.events'', events_model) \<in> set scenario_nodes \<and>
      subscript events_model (JStr ''resource_type'') = Inr (JStr ''model'') \<and>
      allow_all (JStr ''model'') = Inr True \<and>
      subscript events_model (JStr ''config'') = Inr (JObj [(''materialized'', JStr ''table'')]) \<and>
      map_of [(''materialized'', JStr ''table'')] ''materialized'' = Some (JStr ''table'') \<and>
      JStr ''table'' \<noteq> JStr ''ephemeral'' \<and> True \<and>
      map_of [(''source.raw_events'', raw_events_catalog)] ''model.events'' = None"
    by (simp add: defs)
  have h5: "dangling_nodes = [] @ (''model.events'', dangling_model) # [(''source.raw_events'', raw_events)] \<and>
      extract_loop allow_all (\<lambda>v. ''None'') dangling_nodes scenario_catalog_nodes True ''postgres''
        ''PROD'' [] [] = Inr [] \<and>
      subscript dangling_model (JStr ''resource_type'') = Inr (JStr ''model'') \<and>
      allow_all (JStr ''model'') = Inr True \<and>
      subscript dangling_model (JStr ''database'') = Inr (JStr ''db'') \<and>
      subscript dangling_model (JStr ''schema'') = Inr (JStr ''public'') \<and>
      subscript dangling_model (JStr ''original_file_path'') = Inr (JStr ''models/events.sql'') \<and>
      entity_name True dangling_model = Inr (JStr ''events'') \<and>
      subscript dangling_model (JStr ''config'') = Inr (JObj [(''materialized'', JStr ''table'')]) \<and>
      ''materialized'' \<in> set (map fst [(''materialized'', JStr ''table'')]) \<and>
      subscript dangling_model (JStr ''depends_on'') =
        Inr (JObj [(''nodes'', JArr [JStr ''source.raw_events'', JStr ''model.ghost''])]) \<and>
      subscript (JObj [(''nodes'', JArr [JStr ''source.raw_events'', JStr ''model.ghost''])])
        (JStr ''nodes'') = Inr (JArr ([JStr ''source.raw_events''] @ JStr ''model.ghost'' # [])) \<and>
      get_upstreams (\<lambda>v. ''None'') (JArr [JStr ''source.raw_events'']) dangling_nodes True
        ''postgres'' ''PROD''
        = Inr [''urn:li:dataset:(urn:li:dataPlatform:postgres,db.public.raw_events,PROD)''] \<and>
      map_of dangling_nodes ''model.ghost'' = None"
    by (simp add: defs)
  have h6: "[(''source.raw_events'', raw_events)] = [] @ (''source.raw_events'', raw_events) # [] \<and>
      extract_loop allow_all (\<lambda>v. ''None'') [(''source.raw_events'', raw_events)] [] True
        ''postgres'' ''PROD'' [] [] = Inr [] \<and>
      subscript raw_events (JStr ''resource_type'') = Inr (JStr ''source'') \<and>
      allow_all (JStr ''source'') = Inr True \<and>
      subscript raw_events (JStr ''database'') = Inr (JStr ''db'') \<and>
      subscript raw_events (JStr ''schema'') = Inr (JStr ''public'') \<and>
      subscript raw_events (JStr ''original_file_path'') = Inr (JStr ''models/sources.yml'') \<and>
      entity_name True raw_events = Inr (JStr ''raw_events'') \<and>
      subscript raw_events (JStr ''config'') = Inr (JObj [(''enabled'', JBool True)]) \<and>
      ''materialized'' \<notin> set (map fst [(''enabled'', JBool True)]) \<and>
      map_of [] ''source.raw_events'' = (None :: json option)"
    by (simp add: defs)
  have h7: "scenario_nodes = [] @ (''model.events'', events_model) # [(''source.raw_events'', raw_events)] \<and>
      extract_loop allow_all (\<lambda>v. ''None'') scenario_nodes
        [(''source.raw_events'', raw_events_catalog)] True ''postgres'' ''PROD'' [] [] = Inr [] \<and>
      subscript events_model (JStr ''resource_type'') = Inr (JStr ''model'') \<and>
      allow_all (JStr ''model'') = Inr True \<and>
      subscript events_model (JStr ''database'') = Inr (JStr ''db'') \<and>
      subscript events_model (JStr ''schema'') = Inr (JStr ''public'') \<and>
      subscript events_model (JStr ''original_file_path'') = Inr (JStr ''models/events.sql'') \<and>
      entity_name True events_model = Inr (JStr ''events'') \<and>
      subscript events_model (JStr ''config'') = Inr (JObj [(''materialized'', JStr ''table'')]) \<and>
      map_of [(''materialized'', JStr ''table'')] ''materialized'' = Some (JStr ''table'') \<and>
      JStr ''table'' \<noteq> JStr ''ephemeral'' \<and> True \<and>
      subscript events_model (JStr ''depends_on'') =
        Inr (JObj [(''nodes'', JArr [JStr ''source.raw_events''])]) \<and>
      subscript (JObj [(''nodes'', JArr [JStr ''source.raw_events''])]) (JStr ''nodes'')
        = Inr (JArr [JStr ''source.raw_events'']) \<and>
      get_upstreams (\<lambda>v. ''None'') (JArr [JStr ''source.raw_events'']) scenario_nodes True
        ''postgres'' ''PROD''
        = Inr [''urn:li:dataset:(urn:li:dataPlatform:postgres,db.public.raw_events,PROD)''] \<and>
      map_of [(''source.raw_events'', raw_events_catalog)] ''model.events'' = None"
    by (simp add: defs)
  have c5: "extract_dbt_entities dangling_nodes scenario_catalog_nodes True ''postgres'' ''PROD''
        allow_all (\<lambda>v. ''None'') = Inl (KeyError (JStr ''model.ghost''))"
    by (rule dangling [THEN conjunct2, THEN conjunct2, THEN conjunct2, THEN conjunct2,
          THEN conjunct1, THEN mp, OF h5])
  have h4: "loadManifestAndCatalog dangling_ext
        (manifest_path (config (scenario_source True)))
        (catalog_path (config (scenario_source True)))
        (load_schemas (config (scenario_source True)))
        (target_platform (config (scenario_source True)))
        (env (config (scenario_source True)))
        (node_type_pattern (config (scenario_source True))) = Inl (KeyError (JStr ''model.ghost''))"
    using c5
    by (simp add: loadManifestAndCatalog_def scenario_source_def dangling_ext_def scenario_ext_def
          dangling_manifest_def scenario_catalog_def scenario_merge dict_merge_def
          dict_display_def dangling_nodes_def scenario_catalog_nodes_def)
  show ?thesis
    apply (rule conjI)
     apply (rule h1)
    apply (rule conjI)
     apply (rule dangling [THEN conjunct1, THEN mp, OF h1])
    apply (rule conjI)
     apply (rule h2)
    apply (rule conjI)
     apply (rule source [THEN conjunct2, THEN conjunct1, THEN mp, OF h2])
    apply (rule conjI)
     apply (rule h3)
    apply (rule conjI)
     apply (rule model [THEN conjunct2, THEN conjunct2, THEN conjunct1, THEN mp, OF h3])
    apply (rule conjI)
     apply (rule h4)
    apply (rule conjI)
     apply (rule driver [THEN conjunct2, THEN conjunct2, THEN conjunct2, THEN conjunct1,
              THEN mp, OF h4])
    apply (rule conjI)
     apply (rule h5)
    apply (rule conjI)
     apply (rule c5)
    apply (rule conjI)
     apply (rule h6)
    apply (rule conjI)
     apply (rule source [THEN conjunct2, THEN conjunct2, THEN conjunct2, THEN conjunct2,
              THEN conjunct2, THEN conjunct1, THEN mp, OF h6])
    apply (rule conjI)
     apply (rule h7)
    apply (rule conjI)
     apply (rule model [THEN conjunct2, THEN conjunct2, THEN conjunct2, THEN conjunct2,
              THEN conjunct2, THEN conjunct2, THEN conjunct1, THEN mp, OF h7])
    apply (rule conjI)
     apply (rule h8)
    apply (rule conjI)
     apply (rule rejected [THEN conjunct2, THEN conjunct2, THEN conjunct2, THEN conjunct2,
              THEN conjunct2, THEN conjunct2, THEN conjunct2, THEN conjunct1, THEN mp, OF h8])
    apply (rule conjI)
     apply (rule h9)
    apply (rule unread [THEN conjunct2, THEN conjunct2, THEN conjunct2, THEN conjunct2,
             THEN conjunct2, THEN conjunct2, THEN conjunct2, THEN conjunct2, THEN mp, OF h9])
    done
qed

end
